theory Spec2Isabelle
  imports Main "HOL-Library.Word"
begin

section \<open>JavaScript strings\<close>

text \<open>
  A JavaScript string is a sequence of UTF-16 code units. \<open>indexOf\<close>, \<open>substring\<close>,
  \<open>trim\<close>, \<open>split\<close> and the regular expressions of \<^verbatim>\<open>src/index.ts\<close> all work on code
  units, so a string is a list of 16-bit words. \<open>js\<close> writes an ASCII literal.
\<close>

type_synonym jschar = "16 word"
type_synonym jsstring = "jschar list"

definition js :: "string \<Rightarrow> jsstring" where
  "js s = map of_char s"

definition space :: jschar where
  "space = 0x20"

definition gt :: jschar where
  "gt = 0x3E"

text \<open>\<^verbatim>\<open>String.prototype.indexOf\<close> with a one-character needle: the index of the
  first occurrence, or \<open>-1\<close>.\<close>

fun indexOf_from :: "jsstring \<Rightarrow> jschar \<Rightarrow> int \<Rightarrow> int" where
  "indexOf_from [] c i = - 1"
| "indexOf_from (x # xs) c i = (if x = c then i else indexOf_from xs c (i + 1))"

definition indexOf :: "jsstring \<Rightarrow> jschar \<Rightarrow> int" where
  "indexOf s c = indexOf_from s c 0"

text \<open>\<^verbatim>\<open>s.substring(a, b)\<close> and \<^verbatim>\<open>s.substring(a)\<close>; a negative index counts as 0 and an
  index beyond the end as the length, which \<open>nat\<close>, \<open>take\<close> and \<open>drop\<close> do.\<close>

definition substring :: "jsstring \<Rightarrow> int \<Rightarrow> int \<Rightarrow> jsstring" where
  "substring s a b = take (nat (max a b) - nat (min a b)) (drop (nat (min a b)) s)"

definition substring_from :: "jsstring \<Rightarrow> int \<Rightarrow> jsstring" where
  "substring_from s a = drop (nat a) s"

text \<open>The code units \<^verbatim>\<open>trim\<close> removes: ECMAScript's WhiteSpace and LineTerminator.\<close>

definition is_whitespace :: "jschar \<Rightarrow> bool" where
  "is_whitespace c =
     (c = 0x09 \<or> c = 0x0A \<or> c = 0x0B \<or> c = 0x0C \<or> c = 0x0D \<or> c = 0x20 \<or> c = 0xA0
      \<or> c = 0x1680 \<or> (0x2000 \<le> c \<and> c \<le> 0x200A) \<or> c = 0x2028 \<or> c = 0x2029
      \<or> c = 0x202F \<or> c = 0x205F \<or> c = 0x3000 \<or> c = 0xFEFF)"

definition trim :: "jsstring \<Rightarrow> jsstring" where
  "trim s = rev (dropWhile is_whitespace (rev (dropWhile is_whitespace s)))"

text \<open>\<^verbatim>\<open>s.split(sep)\<close> with a one-character separator: never the empty array.\<close>

fun split_on :: "jschar \<Rightarrow> jsstring \<Rightarrow> jsstring list" where
  "split_on sep [] = [[]]"
| "split_on sep (c # cs) =
     (if c = sep then [] # split_on sep cs
      else (case split_on sep cs of [] \<Rightarrow> [[c]] | p # ps \<Rightarrow> (c # p) # ps))"

text \<open>\<^verbatim>\<open>arr.includes(x)\<close>; \<open>None\<close> is \<^verbatim>\<open>undefined\<close>, which an array of strings
  never holds.\<close>

definition arr_includes :: "jsstring list \<Rightarrow> jsstring option \<Rightarrow> bool" where
  "arr_includes arr x = (case x of None \<Rightarrow> False | Some v \<Rightarrow> v \<in> set arr)"

section \<open>The prefix grammar\<close>

text \<open>The character class \<^verbatim>\<open>[a-z_]\<close>.\<close>

definition is_code_char :: "jschar \<Rightarrow> bool" where
  "is_code_char c = ((0x61 \<le> c \<and> c \<le> 0x7A) \<or> c = 0x5F)"

text \<open>
  The three regular expressions of \<^verbatim>\<open>parsePrompt\<close>, each anchored at both ends (no
  \<^verbatim>\<open>m\<close> flag), as the functions that return their capture groups. \<^verbatim>\<open>[a-z_]+\<close> cannot
  match \<^verbatim>\<open>>\<close>, so the first group is the longest run of code characters and the match is
  unique.
\<close>

definition match1 :: "jsstring \<Rightarrow> (jsstring \<times> jsstring) option" where
  \<comment> \<open>\<^verbatim>\<open>/^([a-z_]+)>([a-z_]+)$/\<close>\<close>
  "match1 prefix =
     (let source = takeWhile is_code_char prefix in
      case dropWhile is_code_char prefix of
        [] \<Rightarrow> None
      | c # target \<Rightarrow>
          if source \<noteq> [] \<and> c = gt \<and> target \<noteq> [] \<and> list_all is_code_char target
          then Some (source, target) else None)"

definition match2 :: "jsstring \<Rightarrow> jsstring option" where
  \<comment> \<open>\<^verbatim>\<open>/^([a-z_]+)>$/\<close>\<close>
  "match2 prefix =
     (let source = takeWhile is_code_char prefix in
      if source \<noteq> [] \<and> dropWhile is_code_char prefix = [gt] then Some source else None)"

definition match3 :: "jsstring \<Rightarrow> jsstring option" where
  \<comment> \<open>\<^verbatim>\<open>/^>?([a-z_]+)$/\<close>\<close>
  "match3 prefix =
     (let target = (case prefix of [] \<Rightarrow> [] | c # cs \<Rightarrow> if c = gt then cs else prefix) in
      if target \<noteq> [] \<and> list_all is_code_char target then Some target else None)"

section \<open>parsePrompt\<close>

record parsed =
  parsedSourceLanguageCode :: jsstring
  parsedTargetLanguageCode :: jsstring
  parsedText :: jsstring

text \<open>
  \<^verbatim>\<open>languageCodesArr\<close> is imported from \<^verbatim>\<open>./service/language\<close>, which is not part of the
  sources at hand: it is the first parameter. The three parts are tried in the order of
  the source; each falls through to the next when its expression does not match or a
  captured code is not in \<^verbatim>\<open>languageCodesArr\<close>.
\<close>

definition parsePrompt_default :: "jsstring \<Rightarrow> jsstring \<Rightarrow> jsstring \<Rightarrow> parsed" where
  "parsePrompt_default prompt oldSourceLanguageCode oldTargetLanguageCode =
     \<lparr>parsedSourceLanguageCode = oldSourceLanguageCode,
      parsedTargetLanguageCode = oldTargetLanguageCode,
      parsedText = prompt\<rparr>"

definition parsePrompt_part3 ::
  "jsstring list \<Rightarrow> jsstring \<Rightarrow> jsstring \<Rightarrow> jsstring \<Rightarrow> jsstring \<Rightarrow> jsstring \<Rightarrow> parsed" where
  "parsePrompt_part3 languageCodesArr prompt oldSourceLanguageCode oldTargetLanguageCode prefix rest =
     (case match3 prefix of
        Some target \<Rightarrow>
          if arr_includes languageCodesArr (Some target)
          then \<lparr>parsedSourceLanguageCode = oldSourceLanguageCode,
                parsedTargetLanguageCode = target,
                parsedText = rest\<rparr>
          else parsePrompt_default prompt oldSourceLanguageCode oldTargetLanguageCode
      | None \<Rightarrow> parsePrompt_default prompt oldSourceLanguageCode oldTargetLanguageCode)"

definition parsePrompt_part2 ::
  "jsstring list \<Rightarrow> jsstring \<Rightarrow> jsstring \<Rightarrow> jsstring \<Rightarrow> jsstring \<Rightarrow> jsstring \<Rightarrow> parsed" where
  "parsePrompt_part2 languageCodesArr prompt oldSourceLanguageCode oldTargetLanguageCode prefix rest =
     (case match2 prefix of
        Some source \<Rightarrow>
          if arr_includes languageCodesArr (Some source)
          then \<lparr>parsedSourceLanguageCode = source,
                parsedTargetLanguageCode = oldTargetLanguageCode,
                parsedText = rest\<rparr>
          else parsePrompt_part3 languageCodesArr prompt oldSourceLanguageCode
                 oldTargetLanguageCode prefix rest
      | None \<Rightarrow> parsePrompt_part3 languageCodesArr prompt oldSourceLanguageCode
                 oldTargetLanguageCode prefix rest)"

definition parsePrompt_part1 ::
  "jsstring list \<Rightarrow> jsstring \<Rightarrow> jsstring \<Rightarrow> jsstring \<Rightarrow> jsstring \<Rightarrow> jsstring \<Rightarrow> parsed" where
  "parsePrompt_part1 languageCodesArr prompt oldSourceLanguageCode oldTargetLanguageCode prefix rest =
     (case match1 prefix of
        Some (source, target) \<Rightarrow>
          if arr_includes languageCodesArr (Some source) \<and> arr_includes languageCodesArr (Some target)
          then \<lparr>parsedSourceLanguageCode = source,
                parsedTargetLanguageCode = target,
                parsedText = rest\<rparr>
          else parsePrompt_part2 languageCodesArr prompt oldSourceLanguageCode
                 oldTargetLanguageCode prefix rest
      | None \<Rightarrow> parsePrompt_part2 languageCodesArr prompt oldSourceLanguageCode
                 oldTargetLanguageCode prefix rest)"

definition parsePrompt :: "jsstring list \<Rightarrow> jsstring \<Rightarrow> jsstring \<Rightarrow> jsstring \<Rightarrow> parsed" where
  "parsePrompt languageCodesArr prompt oldSourceLanguageCode oldTargetLanguageCode =
     (let spaceIndex = indexOf prompt space in
      if spaceIndex > 15
      then parsePrompt_default prompt oldSourceLanguageCode oldTargetLanguageCode
      else
        let prefix = (if spaceIndex = - 1 then prompt else substring prompt 0 spaceIndex);
            rest = (if spaceIndex = - 1 then [] else trim (substring_from prompt (spaceIndex + 1)))
        in parsePrompt_part1 languageCodesArr prompt oldSourceLanguageCode
             oldTargetLanguageCode prefix rest)"

section \<open>Settings, collaborators and result items\<close>

text \<open>The interface languages \<^verbatim>\<open>'en'\<close>, \<^verbatim>\<open>'tr'\<close> and \<^verbatim>\<open>'zh'\<close>, and an object with one string
  for each of them, as the entries of \<^verbatim>\<open>messagesMap\<close> and of the name tables are typed;
  \<open>m lang\<close> is \<^verbatim>\<open>m[interfaceLanguage]\<close>.\<close>

datatype interfaceLanguage = EN | TR | ZH

type_synonym localized = "interfaceLanguage \<Rightarrow> jsstring"

definition localized :: "jsstring \<Rightarrow> jsstring \<Rightarrow> jsstring \<Rightarrow> localized" where
  "localized en tr zh l = (case l of EN \<Rightarrow> en | TR \<Rightarrow> tr | ZH \<Rightarrow> zh)"

text \<open>The result of \<^verbatim>\<open>parseSettings\<close> (not part of the sources at hand), with the fields
  the query handler reads. \<open>None\<close> in \<open>services\<close> and \<open>languagePairs\<close> is a missing
  (falsy) value.\<close>

record settings =
  interfaceLanguage :: interfaceLanguage
  sourceLanguageCode :: jsstring
  targetLanguageCode :: jsstring
  triggerKeyword :: jsstring
  services :: "jsstring list option"
  languagePairs :: "jsstring list option"
  translateDelay :: nat

text \<open>How an awaited promise settles. \<open>Pending\<close> is a promise that never settles.\<close>

datatype 'a promise = Fulfilled 'a | Rejected | Pending

text \<open>An entry of \<^verbatim>\<open>servicesData\<close>: \<^verbatim>\<open>languagesMap\<close> from language codes to the service's
  own codes, and the \<^verbatim>\<open>translate\<close> capability with its five arguments (text, source
  code, target code, HTTP client, settings). The target code is an unguarded lookup
  in the source, so it may be \<^verbatim>\<open>undefined\<close> (\<open>None\<close>).\<close>

record 'c service =
  languagesMap :: "jsstring \<rightharpoonup> jsstring"
  translate :: "jsstring \<Rightarrow> jsstring \<Rightarrow> jsstring option \<Rightarrow> 'c \<Rightarrow> settings \<Rightarrow> jsstring promise"

text \<open>What \<^verbatim>\<open>index.ts\<close> imports or computes from its environment: the language tables,
  the service registry, the service display names, the assets directory and the
  constructor of the HTTP client. \<open>'c\<close> is the type of the HTTP client.\<close>

record 'c env =
  languageCodesArr :: "jsstring list"
  languageNamesMap :: "jsstring \<rightharpoonup> localized"
  servicesData :: "jsstring \<rightharpoonup> 'c service"
  serviceNamesMap :: "jsstring \<rightharpoonup> localized"
  assetsPath :: jsstring
  createAxiosInstance :: "settings \<Rightarrow> 'c"

datatype action =
  ChangeQuery jsstring bool
| Custom jsstring "jsstring list"

record item =
  title :: jsstring
  subtitle :: jsstring
  icoPath :: jsstring
  jsonRPCAction :: "action option"

text \<open>One invocation of a service's \<^verbatim>\<open>translate\<close>, with the arguments it was given.\<close>

record 'c call =
  calledService :: jsstring
  argText :: jsstring
  argSource :: jsstring
  argTarget :: "jsstring option"
  argClient :: 'c
  argSettings :: settings

text \<open>How the handler can end without adding its items: a property read on
  \<^verbatim>\<open>undefined\<close>, a rejected \<^verbatim>\<open>translate\<close> (nothing in the handler catches it), or an
  awaited promise that never settles.\<close>

datatype failure = TypeError | TranslateRejected | NeverSettles

text \<open>What one run of the query handler leaves behind: the module-level
  \<^verbatim>\<open>axiosInstance\<close>, the \<^verbatim>\<open>translate\<close> calls it issued, in order, and the items it
  added to the response (or the failure that kept it from adding any).\<close>

record 'c run =
  axiosInstance :: 'c
  calls :: "'c call list"
  response :: "failure + item list"

subsection \<open>messagesMap\<close>

definition unsupportedSourceLanguage :: localized where
  "unsupportedSourceLanguage = localized
     (js ''Unsupported source language'')
     (js ''Desteklenmeyen kaynak dil'')
     [0x4E0D, 0x652F, 0x6301, 0x7684, 0x6E90, 0x8BED, 0x8A00]"

definition pleaseCheck :: localized where
  \<comment> \<open>the value of all three \<^verbatim>\<open>...Subtitle\<close> entries\<close>
  "pleaseCheck = localized
     (js ''Please check your configuration.'')
     [76, 0xFC, 116, 102, 101, 110, 32, 121, 97, 112, 0x131, 108, 97, 110, 100, 0x131, 114,
      109, 97, 110, 0x131, 122, 0x131, 32, 107, 111, 110, 116, 114, 111, 108, 32, 101, 100,
      105, 110, 46]
     [0x8BF7, 0x68C0, 0x67E5, 0x60A8, 0x7684, 0x914D, 0x7F6E, 0x3002]"

definition unsupportedSourceLanguageSubtitle :: localized where
  "unsupportedSourceLanguageSubtitle = pleaseCheck"

definition unsupportedTargetLanguage :: localized where
  "unsupportedTargetLanguage = localized
     (js ''Unsupported target language'')
     (js ''Desteklenmeyen hedef dil'')
     [0x4E0D, 0x652F, 0x6301, 0x7684, 0x76EE, 0x6807, 0x8BED, 0x8A00]"

definition unsupportedTargetLanguageSubtitle :: localized where
  "unsupportedTargetLanguageSubtitle = pleaseCheck"

definition noServicesConfigured :: localized where
  "noServicesConfigured = localized
     (js ''No services configured'')
     [89, 97, 112, 0x131, 108, 97, 110, 100, 0x131, 114, 0x131, 108, 109, 0x131, 0x15F, 32,
      104, 105, 122, 109, 101, 116, 32, 121, 111, 107]
     [0x672A, 0x914D, 0x7F6E, 0x7FFB, 0x8BD1, 0x670D, 0x52A1]"

definition noServicesConfiguredSubtitle :: localized where
  "noServicesConfiguredSubtitle = pleaseCheck"

definition defaultSelected :: localized where
  "defaultSelected = localized
     (js ''Default selected: '')
     [86, 97, 114, 115, 97, 121, 0x131, 108, 97, 110, 32, 115, 101, 0xE7, 105, 108, 105, 58, 32]
     [0x9ED8, 0x8BA4, 0x9009, 0x62E9, 58, 32]"

definition quickSelect :: localized where
  "quickSelect = localized
     (js ''Quick select: '')
     [72, 0x131, 122, 108, 0x131, 32, 115, 101, 0xE7, 105, 109, 58, 32]
     [0x5FEB, 0x901F, 0x9009, 0x62E9, 58, 32]"

text \<open>The separator of the titles and subtitles: space, U+2192 (rightwards arrow),
  space.\<close>

definition arrow :: jsstring where
  "arrow = [0x20, 0x2192, 0x20]"

section \<open>The query handler\<close>

text \<open>\<^verbatim>\<open>languageNamesMap[code][interfaceLanguage]\<close>: reading a property of \<^verbatim>\<open>undefined\<close>
  throws.\<close>

definition languageName :: "'c env \<Rightarrow> jsstring \<Rightarrow> interfaceLanguage \<Rightarrow> failure + jsstring" where
  "languageName env code lang =
     (case languageNamesMap env code of None \<Rightarrow> Inl TypeError | Some names \<Rightarrow> Inr (names lang))"

text \<open>Evaluating a list of expressions from left to right: the first that throws ends
  the evaluation.\<close>

fun collect :: "(failure + 'a) list \<Rightarrow> failure + 'a list" where
  "collect [] = Inr []"
| "collect (x # xs) =
     (case x of
        Inl e \<Rightarrow> Inl e
      | Inr v \<Rightarrow> (case collect xs of Inl e \<Rightarrow> Inl e | Inr vs \<Rightarrow> Inr (v # vs)))"

text \<open>The three warning items of lines 41--66.\<close>

definition warningItem :: "'c env \<Rightarrow> jsstring \<Rightarrow> jsstring \<Rightarrow> item" where
  "warningItem env t s =
     \<lparr>title = t, subtitle = s, icoPath = assetsPath env @ js ''/warning.png'',
      jsonRPCAction = None\<rparr>"

definition noServicesItem :: "'c env \<Rightarrow> settings \<Rightarrow> item" where
  "noServicesItem env settings =
     warningItem env (noServicesConfigured (interfaceLanguage settings))
       (noServicesConfiguredSubtitle (interfaceLanguage settings))"

definition unsupportedSourceItem :: "'c env \<Rightarrow> settings \<Rightarrow> item" where
  "unsupportedSourceItem env settings =
     warningItem env
       (unsupportedSourceLanguage (interfaceLanguage settings) @ js '' ''
          @ sourceLanguageCode settings)
       (unsupportedSourceLanguageSubtitle (interfaceLanguage settings))"

definition unsupportedTargetItem :: "'c env \<Rightarrow> settings \<Rightarrow> item" where
  "unsupportedTargetItem env settings =
     warningItem env
       (unsupportedTargetLanguage (interfaceLanguage settings) @ js '' ''
          @ targetLanguageCode settings)
       (unsupportedTargetLanguageSubtitle (interfaceLanguage settings))"

text \<open>The "default selected" item, built at line 84 from the settings' codes and at
  line 107 from the parsed codes.\<close>

definition defaultSelectedItem ::
  "'c env \<Rightarrow> interfaceLanguage \<Rightarrow> jsstring \<Rightarrow> jsstring \<Rightarrow> failure + item" where
  "defaultSelectedItem env lang source target =
     (case languageName env source lang of
        Inl e \<Rightarrow> Inl e
      | Inr sourceName \<Rightarrow>
          (case languageName env target lang of
             Inl e \<Rightarrow> Inl e
           | Inr targetName \<Rightarrow>
               Inr \<lparr>title = sourceName @ arrow @ targetName,
                    subtitle = defaultSelected lang @ js '' '' @ source @ arrow @ target,
                    icoPath = assetsPath env @ js ''/info.png'',
                    jsonRPCAction = None\<rparr>))"

subsection \<open>Quick select\<close>

text \<open>\<^verbatim>\<open>const [source, target] = pair.split('>').map(i => i.trim())\<close>: the first two
  parts; a part that does not exist is \<^verbatim>\<open>undefined\<close>.\<close>

definition pairCodes :: "jsstring \<Rightarrow> jsstring option \<times> jsstring option" where
  "pairCodes pair =
     (let parts = map trim (split_on gt pair) in
      (case parts of [] \<Rightarrow> None | source # _ \<Rightarrow> Some source,
       case parts of _ # target # _ \<Rightarrow> Some target | _ \<Rightarrow> None))"

text \<open>\<^verbatim>\<open>undefined\<close> as a property key or in a template literal.\<close>

definition to_string :: "jsstring option \<Rightarrow> jsstring" where
  "to_string x = (case x of None \<Rightarrow> js ''undefined'' | Some s \<Rightarrow> s)"

text \<open>The predicate of \<^verbatim>\<open>settings.languagePairs.filter\<close>.\<close>

definition validPair :: "'c env \<Rightarrow> jsstring \<Rightarrow> bool" where
  "validPair env pair =
     (case pairCodes pair of
        (source, target) \<Rightarrow>
          arr_includes (languageCodesArr env) source \<and> arr_includes (languageCodesArr env) target)"

text \<open>\<^verbatim>\<open>a || b\<close> on strings: the empty string is falsy.\<close>

definition or_else :: "jsstring \<Rightarrow> jsstring \<Rightarrow> jsstring" where
  "or_else a b = (if a = [] then b else a)"

text \<open>The callback of \<^verbatim>\<open>validPairs.map\<close>.\<close>

definition quickSelectItem :: "'c env \<Rightarrow> settings \<Rightarrow> jsstring \<Rightarrow> failure + item" where
  "quickSelectItem env settings pair =
     (case pairCodes pair of
        (source, target) \<Rightarrow>
          (case languageName env (to_string source) (interfaceLanguage settings) of
             Inl e \<Rightarrow> Inl e
           | Inr sn \<Rightarrow>
               (case languageName env (to_string target) (interfaceLanguage settings) of
                  Inl e \<Rightarrow> Inl e
                | Inr tn \<Rightarrow>
                    Inr \<lparr>title = or_else sn (to_string source) @ arrow
                                  @ or_else tn (to_string target),
                         subtitle = quickSelect (interfaceLanguage settings) @ js '' ''
                                  @ to_string source @ arrow @ to_string target,
                         icoPath = assetsPath env @ js ''/info.png'',
                         jsonRPCAction =
                           Some (ChangeQuery (triggerKeyword settings @ js '' '' @ pair @ js '' '')
                                   True)\<rparr>)))"

text \<open>Lines 75--100: the arguments of \<^verbatim>\<open>response.add\<close>.\<close>

definition quickSelectList :: "'c env \<Rightarrow> settings \<Rightarrow> jsstring list \<Rightarrow> failure + item list" where
  "quickSelectList env settings pairs =
     (let validPairs = filter (validPair env) pairs in
      collect
        (defaultSelectedItem env (interfaceLanguage settings) (sourceLanguageCode settings)
           (targetLanguageCode settings)
         # map (quickSelectItem env settings) validPairs))"

subsection \<open>Dispatch\<close>

text \<open>\<^verbatim>\<open>regExp.test(text)\<close> for the expression of line 128, a character class
  with the single range U+4E00..U+9FA5 (CJK Unified Ideographs): some code unit of the
  text lies in that range.\<close>

definition regExp_test :: "jsstring \<Rightarrow> bool" where
  "regExp_test s = list_ex (\<lambda>c. 0x4E00 \<le> c \<and> c \<le> 0x9FA5) s"

text \<open>
  The callback of \<^verbatim>\<open>settings.services.map\<close> (lines 119--139) for one service name.
  An \<^verbatim>\<open>async\<close> function runs synchronously up to its first \<^verbatim>\<open>await\<close>, which here is the
  one on the promise that \<^verbatim>\<open>translate\<close> has already returned. So \<^verbatim>\<open>map\<close> runs the
  callbacks one after the other, each reading and possibly assigning the shared
  \<^verbatim>\<open>targetLanguageCode\<close> and issuing its call before the next one starts. The callback
  is given the current value of the variable and returns its new value, the calls it
  issued, and how its promise settles: with \<^verbatim>\<open>null\<close> (\<open>None\<close>), with
  \<^verbatim>\<open>{ result, name }\<close>, or as \<^verbatim>\<open>translate\<close> does when that rejects or never settles.
\<close>

definition translateTask ::
  "'c env \<Rightarrow> 'c \<Rightarrow> settings \<Rightarrow> jsstring \<Rightarrow> jsstring \<Rightarrow> jsstring \<Rightarrow> jsstring
     \<Rightarrow> jsstring \<times> 'c call list \<times> (jsstring \<times> jsstring) option promise" where
  "translateTask env client settings sourceCode text nm targetCode =
     (case servicesData env nm of
        None \<Rightarrow> (targetCode, [], Fulfilled None)
      | Some service \<Rightarrow>
          (case languagesMap service sourceCode of
             None \<Rightarrow>
               (targetCode, [],
                Fulfilled (Some (unsupportedSourceLanguage (interfaceLanguage settings), nm)))
           | Some serviceSource \<Rightarrow>
               (let targetCode' =
                      (if targetCode = js ''auto'' \<or> languagesMap service targetCode = None
                       then (if regExp_test text then js ''en'' else js ''zh'')
                       else targetCode)
                in (targetCode',
                    [\<lparr>calledService = nm, argText = text, argSource = serviceSource,
                      argTarget = languagesMap service targetCode', argClient = client,
                      argSettings = settings\<rparr>],
                    (case translate service text serviceSource
                            (languagesMap service targetCode') client settings of
                       Fulfilled r \<Rightarrow> Fulfilled (Some (r, nm))
                     | Rejected \<Rightarrow> Rejected
                     | Pending \<Rightarrow> Pending)))))"

text \<open>\<^verbatim>\<open>settings.services.map(async (name) => ...)\<close>: the callbacks in list order, the
  shared variable threaded through them.\<close>

fun translatePromises ::
  "'c env \<Rightarrow> 'c \<Rightarrow> settings \<Rightarrow> jsstring \<Rightarrow> jsstring \<Rightarrow> jsstring list \<Rightarrow> jsstring
     \<Rightarrow> jsstring \<times> 'c call list \<times> (jsstring \<times> jsstring) option promise list" where
  "translatePromises env client settings sourceCode text [] targetCode = (targetCode, [], [])"
| "translatePromises env client settings sourceCode text (nm # nms) targetCode =
     (case translateTask env client settings sourceCode text nm targetCode of
        (targetCode1, calls1, p) \<Rightarrow>
          (case translatePromises env client settings sourceCode text nms targetCode1 of
             (targetCode2, calls2, ps) \<Rightarrow> (targetCode2, calls1 @ calls2, p # ps)))"

text \<open>\<^verbatim>\<open>Promise.all\<close>: rejected as soon as one promise is rejected, fulfilled with all
  the values, in order, once all are fulfilled, and pending forever otherwise.\<close>

fun promise_all :: "'a promise list \<Rightarrow> 'a list promise" where
  "promise_all [] = Fulfilled []"
| "promise_all (p # ps) =
     (case p of
        Rejected \<Rightarrow> Rejected
      | Pending \<Rightarrow> (case promise_all ps of Rejected \<Rightarrow> Rejected | _ \<Rightarrow> Pending)
      | Fulfilled v \<Rightarrow>
          (case promise_all ps of
             Fulfilled vs \<Rightarrow> Fulfilled (v # vs)
           | Rejected \<Rightarrow> Rejected
           | Pending \<Rightarrow> Pending))"

text \<open>The callback of \<^verbatim>\<open>.map(({ name, result }) => ...)\<close> at lines 144--151; the
  subtitle reads the variable \<^verbatim>\<open>targetLanguageCode\<close> as the callbacks left it.\<close>

definition responseItem ::
  "'c env \<Rightarrow> interfaceLanguage \<Rightarrow> jsstring \<Rightarrow> jsstring \<Rightarrow> jsstring \<times> jsstring \<Rightarrow> failure + item" where
  "responseItem env lang sourceCode targetCode rn =
     (case rn of
        (result, nm) \<Rightarrow>
          (case languageName env sourceCode lang of
             Inl e \<Rightarrow> Inl e
           | Inr sourceName \<Rightarrow>
               (case languageName env targetCode lang of
                  Inl e \<Rightarrow> Inl e
                | Inr targetName \<Rightarrow>
                    (case serviceNamesMap env nm of
                       None \<Rightarrow> Inl TypeError
                     | Some serviceName \<Rightarrow>
                         Inr \<lparr>title = result,
                              subtitle = sourceName @ arrow @ targetName @ js ''  [''
                                       @ serviceName lang @ js '']'',
                              icoPath = assetsPath env @ js ''/service_icon/'' @ nm @ js ''.png'',
                              jsonRPCAction = Some (Custom (js ''copy'') [result])\<rparr>))))"

text \<open>Lines 115--153. The debounce delay and the log line have no effect on the
  calls or the items and are left out.\<close>

definition dispatch ::
  "'c env \<Rightarrow> 'c \<Rightarrow> settings \<Rightarrow> jsstring list \<Rightarrow> jsstring \<Rightarrow> jsstring \<Rightarrow> jsstring \<Rightarrow> 'c run" where
  "dispatch env client settings names sourceCode targetCode text =
     (case translatePromises env client settings sourceCode text names targetCode of
        (targetCode', cs, promises) \<Rightarrow>
          \<lparr>axiosInstance = client,
           calls = cs,
           response =
             (case promise_all promises of
                Rejected \<Rightarrow> Inl TranslateRejected
              | Pending \<Rightarrow> Inl NeverSettles
              | Fulfilled results \<Rightarrow>
                  collect (map (responseItem env (interfaceLanguage settings) sourceCode targetCode')
                             (map the (filter (\<lambda>i. i \<noteq> None) results))))\<rparr>)"

subsection \<open>The handler of the query event\<close>

text \<open>The handler of \<^verbatim>\<open>flow.on('query', ...)\<close>, lines 32--154, given the value of the
  module-level \<^verbatim>\<open>axiosInstance\<close> before the query (\<open>None\<close> is \<^verbatim>\<open>null\<close>), the prompt and
  the parsed settings.\<close>

definition query :: "'c env \<Rightarrow> 'c option \<Rightarrow> jsstring \<Rightarrow> settings \<Rightarrow> 'c run" where
  "query env axiosInstance0 prompt settings =
     (let client = (case axiosInstance0 of None \<Rightarrow> createAxiosInstance env settings | Some c \<Rightarrow> c);
          names = (case services settings of None \<Rightarrow> [] | Some ns \<Rightarrow> ns);
          pairs = (case languagePairs settings of None \<Rightarrow> [] | Some ps \<Rightarrow> ps)
      in
        if length names = 0
        then \<lparr>axiosInstance = client, calls = [], response = Inr [noServicesItem env settings]\<rparr>
        else if languageNamesMap env (sourceLanguageCode settings) = None
        then \<lparr>axiosInstance = client, calls = [],
              response = Inr [unsupportedSourceItem env settings]\<rparr>
        else if languageNamesMap env (targetLanguageCode settings) = None
        then \<lparr>axiosInstance = client, calls = [],
              response = Inr [unsupportedTargetItem env settings]\<rparr>
        else if length pairs > 0 \<and> length (trim prompt) = 0
        then \<lparr>axiosInstance = client, calls = [],
              response = quickSelectList env settings pairs\<rparr>
        else
          let p = parsePrompt (languageCodesArr env) prompt (sourceLanguageCode settings)
                    (targetLanguageCode settings)
          in
            if parsedText p = [] \<or> length (trim (parsedText p)) = 0
            then \<lparr>axiosInstance = client, calls = [],
                  response =
                    (case defaultSelectedItem env (interfaceLanguage settings)
                            (parsedSourceLanguageCode p) (parsedTargetLanguageCode p) of
                       Inl e \<Rightarrow> Inl e
                     | Inr i \<Rightarrow> Inr [i])\<rparr>
            else dispatch env client settings names (parsedSourceLanguageCode p)
                   (parsedTargetLanguageCode p) (parsedText p))"

section \<open>The specification's reading of the prompt grammar\<close>

text \<open>The definitions of this section follow the words of the specification, to be
  compared with \<open>parsePrompt\<close>. The index of the first whitespace character of a
  string, whitespace being what \<^verbatim>\<open>trim\<close> removes:\<close>

definition firstWhitespace :: "jsstring \<Rightarrow> nat option" where
  "firstWhitespace s =
     (if list_ex is_whitespace s then Some (length (takeWhile (\<lambda>c. \<not> is_whitespace c) s))
      else None)"

text \<open>A \<^verbatim>\<open><code>\<close> of the prefix grammar matches \<^verbatim>\<open>[a-z_]+\<close>; it is valid when it is a
  member of the valid-code set.\<close>

definition is_code :: "jsstring \<Rightarrow> bool" where
  "is_code s = (s \<noteq> [] \<and> list_all is_code_char s)"

definition valid_code :: "jsstring list \<Rightarrow> jsstring \<Rightarrow> bool" where
  "valid_code codes s = (is_code s \<and> s \<in> set codes)"

text \<open>The parser as the specification words it: the prefix ends at the first whitespace
  character, the length guard comes first, then the three forms in order (the forms
  themselves are those of the source).\<close>

definition spec_parse :: "jsstring list \<Rightarrow> jsstring \<Rightarrow> jsstring \<Rightarrow> jsstring \<Rightarrow> parsed" where
  "spec_parse codes prompt oldSource oldTarget =
     (case firstWhitespace prompt of
        None \<Rightarrow> parsePrompt_part1 codes prompt oldSource oldTarget prompt []
      | Some i \<Rightarrow>
          if i > 15 then parsePrompt_default prompt oldSource oldTarget
          else parsePrompt_part1 codes prompt oldSource oldTarget (take i prompt)
                 (trim (drop (i + 1) prompt)))"

text \<open>The same with the delimiter of the source, the first space character U+0020:
  the prefix, the trimmed rest, and the three forms a prefix can have.\<close>

definition prefixOf :: "jsstring \<Rightarrow> jsstring" where
  "prefixOf prompt = takeWhile (\<lambda>c. c \<noteq> space) prompt"

definition restOf :: "jsstring \<Rightarrow> jsstring" where
  "restOf prompt = trim (drop (length (prefixOf prompt) + 1) prompt)"

definition formA :: "jsstring list \<Rightarrow> jsstring \<Rightarrow> jsstring \<Rightarrow> jsstring \<Rightarrow> bool" where
  "formA codes prefix source target =
     (prefix = source @ [gt] @ target \<and> valid_code codes source \<and> valid_code codes target)"

definition formB :: "jsstring list \<Rightarrow> jsstring \<Rightarrow> jsstring \<Rightarrow> bool" where
  "formB codes prefix source = (prefix = source @ [gt] \<and> valid_code codes source)"

definition formC :: "jsstring list \<Rightarrow> jsstring \<Rightarrow> jsstring \<Rightarrow> bool" where
  "formC codes prefix target =
     ((prefix = target \<or> prefix = [gt] @ target) \<and> valid_code codes target)"

section \<open>The target that content sniffing resolves to\<close>

text \<open>The right-hand side of the assignment of line 129, as a function of the text.\<close>

definition sniff :: "jsstring \<Rightarrow> jsstring" where
  "sniff input = (if regExp_test input then js ''en'' else js ''zh'')"

text \<open>The same as the specification words it, "the input text contains at least one
  CJK Unified Ideograph character": a code unit that is by itself a CJK unified
  ideograph, one of the Unicode block CJK Unified Ideographs, U+4E00..U+9FFF, or of its
  Extension A, U+3400..U+4DBF. (The ideographs of the later extensions lie in the
  supplementary planes and are surrogate pairs in a JavaScript string.)\<close>

definition cjkUnifiedIdeograph :: "jschar \<Rightarrow> bool" where
  "cjkUnifiedIdeograph c =
     ((0x4E00 \<le> c \<and> c \<le> 0x9FFF) \<or> (0x3400 \<le> c \<and> c \<le> 0x4DBF))"

definition spec_sniff :: "jsstring \<Rightarrow> jsstring" where
  "spec_sniff input = (if list_ex cjkUnifiedIdeograph input then js ''en'' else js ''zh'')"

section \<open>An example configuration\<close>

text \<open>A small environment on which the theorems below are run: four language codes,
  a service that translates, one whose \<^verbatim>\<open>translate\<close> rejects and one that knows
  Japanese only, an HTTP client of type \<open>unit\<close>, and settings with three configured
  language pairs, the second of them with a code that is not valid.\<close>

definition exampleLanguageNames :: "jsstring \<rightharpoonup> localized" where
  "exampleLanguageNames =
     [js ''auto'' \<mapsto> localized (js ''Auto'') (js ''Otomatik'') (js ''Auto''),
      js ''en'' \<mapsto> localized (js ''English'') (js ''Ingilizce'') (js ''English''),
      js ''zh'' \<mapsto> localized (js ''Chinese'') (js ''Cince'') (js ''Chinese''),
      js ''ja'' \<mapsto> localized (js ''Japanese'') (js ''Japonca'') (js ''Japanese'')]"

definition echoService :: "unit service" where
  "echoService =
     \<lparr>languagesMap = [js ''auto'' \<mapsto> js ''auto'', js ''en'' \<mapsto> js ''en'', js ''zh'' \<mapsto> js ''zh-CN''],
      translate = (\<lambda>text source target client settings. Fulfilled (js ''echo '' @ text))\<rparr>"

definition downService :: "unit service" where
  "downService =
     \<lparr>languagesMap = [js ''auto'' \<mapsto> js ''auto'', js ''en'' \<mapsto> js ''en'', js ''zh'' \<mapsto> js ''zh-CN''],
      translate = (\<lambda>text source target client settings. Rejected)\<rparr>"

definition narrowService :: "unit service" where
  "narrowService =
     \<lparr>languagesMap = [js ''ja'' \<mapsto> js ''jpn''],
      translate = (\<lambda>text source target client settings. Fulfilled (js ''narrow '' @ text))\<rparr>"

definition exampleEnv :: "unit env" where
  "exampleEnv =
     \<lparr>languageCodesArr = [js ''auto'', js ''en'', js ''zh'', js ''ja''],
      languageNamesMap = exampleLanguageNames,
      servicesData = [js ''echo'' \<mapsto> echoService, js ''down'' \<mapsto> downService,
                      js ''narrow'' \<mapsto> narrowService],
      serviceNamesMap =
        [js ''echo'' \<mapsto> localized (js ''Echo'') (js ''Echo'') (js ''Echo''),
         js ''down'' \<mapsto> localized (js ''Down'') (js ''Down'') (js ''Down''),
         js ''narrow'' \<mapsto> localized (js ''Narrow'') (js ''Narrow'') (js ''Narrow'')],
      assetsPath = js ''assets'',
      createAxiosInstance = (\<lambda>settings. ())\<rparr>"

definition exampleSettings :: settings where
  "exampleSettings =
     \<lparr>interfaceLanguage = EN,
      sourceLanguageCode = js ''auto'',
      targetLanguageCode = js ''auto'',
      triggerKeyword = js ''tr'',
      services = Some [js ''echo''],
      languagePairs = Some [js ''zh>en'', js ''xx>en'', js ''en > ja''],
      translateDelay = 500\<rparr>"

text \<open>The same environment with one more service, which supports Japanese as well.\<close>

definition wideService :: "unit service" where
  "wideService =
     \<lparr>languagesMap = [js ''auto'' \<mapsto> js ''auto'', js ''en'' \<mapsto> js ''eng'', js ''zh'' \<mapsto> js ''zho'',
                      js ''ja'' \<mapsto> js ''jpn''],
      translate = (\<lambda>text source target client settings. Fulfilled (js ''wide '' @ text))\<rparr>"

definition wideEnv :: "unit env" where
  "wideEnv =
     exampleEnv
       \<lparr>servicesData := (servicesData exampleEnv)(js ''wide'' \<mapsto> wideService),
        serviceNamesMap :=
          (serviceNamesMap exampleEnv)
            (js ''wide'' \<mapsto> localized (js ''Wide'') (js ''Wide'') (js ''Wide''))\<rparr>"

section \<open>Strings and the three expressions\<close>

lemma indexOf_from_eq:
  "indexOf_from s c i = (if c \<in> set s then i + int (length (takeWhile (\<lambda>x. x \<noteq> c) s)) else - 1)"
  by (induction s arbitrary: i) auto

lemma indexOf_eq:
  "indexOf s c = (if c \<in> set s then int (length (takeWhile (\<lambda>x. x \<noteq> c) s)) else - 1)"
  by (simp add: indexOf_def indexOf_from_eq)

lemma gt_not_code_char: "\<not> is_code_char gt"
  by (simp add: is_code_char_def gt_def)

lemma whitespace_not_code_char: "is_whitespace c \<Longrightarrow> \<not> is_code_char c"
  unfolding is_whitespace_def is_code_char_def by (auto simp: word_le_nat_alt)

lemma whitespace_not_gt: "is_whitespace c \<Longrightarrow> c \<noteq> gt"
  unfolding is_whitespace_def gt_def by auto

lemma space_is_whitespace: "is_whitespace space"
  by (simp add: is_whitespace_def space_def)

lemma takeWhile_dropWhile_split:
  "list_all P a \<Longrightarrow> \<not> P c \<Longrightarrow> takeWhile P (a @ c # b) = a \<and> dropWhile P (a @ c # b) = c # b"
  by (induction a) auto

lemma match1_iff:
  "match1 p = Some (a, b) \<longleftrightarrow>
     p = a @ gt # b \<and> a \<noteq> [] \<and> b \<noteq> [] \<and> list_all is_code_char a \<and> list_all is_code_char b"
proof
  assume m: "match1 p = Some (a, b)"
  then obtain c where d: "dropWhile is_code_char p = c # b" and a: "a = takeWhile is_code_char p"
    and r: "a \<noteq> []" "c = gt" "b \<noteq> []" "list_all is_code_char b"
    by (auto simp: match1_def Let_def split: list.splits if_splits)
  have "p = takeWhile is_code_char p @ dropWhile is_code_char p" by simp
  with d a r have "p = a @ gt # b" by simp
  moreover have "list_all is_code_char a" unfolding a by (simp add: list_all_iff) (meson set_takeWhileD)
  ultimately show "p = a @ gt # b \<and> a \<noteq> [] \<and> b \<noteq> [] \<and> list_all is_code_char a \<and> list_all is_code_char b"
    using r by simp
next
  assume h: "p = a @ gt # b \<and> a \<noteq> [] \<and> b \<noteq> [] \<and> list_all is_code_char a \<and> list_all is_code_char b"
  then have "takeWhile is_code_char p = a \<and> dropWhile is_code_char p = gt # b"
    using takeWhile_dropWhile_split[of is_code_char a gt b] gt_not_code_char by simp
  with h show "match1 p = Some (a, b)" by (simp add: match1_def)
qed

lemma match2_iff:
  "match2 p = Some a \<longleftrightarrow> p = a @ [gt] \<and> a \<noteq> [] \<and> list_all is_code_char a"
proof
  assume m: "match2 p = Some a"
  then have d: "dropWhile is_code_char p = [gt]" and a: "a = takeWhile is_code_char p" and r: "a \<noteq> []"
    by (auto simp: match2_def Let_def split: if_splits)
  have "p = takeWhile is_code_char p @ dropWhile is_code_char p" by simp
  with d a have "p = a @ [gt]" by simp
  moreover have "list_all is_code_char a" unfolding a by (simp add: list_all_iff) (meson set_takeWhileD)
  ultimately show "p = a @ [gt] \<and> a \<noteq> [] \<and> list_all is_code_char a" using r by simp
next
  assume h: "p = a @ [gt] \<and> a \<noteq> [] \<and> list_all is_code_char a"
  then have "takeWhile is_code_char p = a \<and> dropWhile is_code_char p = [gt]"
    using takeWhile_dropWhile_split[of is_code_char a gt "[]"] gt_not_code_char by simp
  with h show "match2 p = Some a" by (simp add: match2_def)
qed

lemma match3_iff:
  "match3 p = Some b \<longleftrightarrow> (p = b \<or> p = gt # b) \<and> b \<noteq> [] \<and> list_all is_code_char b"
  using gt_not_code_char by (cases p) (auto simp: match3_def Let_def)

lemma length_takeWhile_mono:
  "(\<And>x. P x \<Longrightarrow> Q x) \<Longrightarrow> length (takeWhile P xs) \<le> length (takeWhile Q xs)"
  by (induction xs) auto

lemma no_match_whitespace:
  assumes "w \<in> set p" "is_whitespace w"
  shows "match1 p = None \<and> match2 p = None \<and> match3 p = None"
proof -
  have nc: "\<not> is_code_char w" and ng: "w \<noteq> gt"
    using assms(2) whitespace_not_code_char whitespace_not_gt by auto
  have "match1 p \<noteq> Some (a, b)" for a b
    using assms(1) nc ng by (auto simp: match1_iff list_all_iff)
  then have 1: "match1 p = None" by (cases "match1 p") auto
  have "match2 p \<noteq> Some a" for a
    using assms(1) nc ng by (auto simp: match2_iff list_all_iff)
  then have 2: "match2 p = None" by (cases "match2 p") auto
  have "match3 p \<noteq> Some a" for a
    using assms(1) nc ng by (auto simp: match3_iff list_all_iff)
  then have 3: "match3 p = None" by (cases "match3 p") auto
  from 1 2 3 show ?thesis by simp
qed

lemma part1_no_match:
  "match1 q = None \<Longrightarrow> match2 q = None \<Longrightarrow> match3 q = None \<Longrightarrow>
   parsePrompt_part1 codes p s t q r = parsePrompt_default p s t"
  by (simp add: parsePrompt_part1_def parsePrompt_part2_def parsePrompt_part3_def)

lemma trim_Nil: "trim [] = []"
  by (simp add: trim_def)

lemma parsePrompt_prefix_rest:
  assumes "indexOf prompt space \<le> 15"
  shows "parsePrompt codes prompt s t =
           parsePrompt_part1 codes prompt s t (prefixOf prompt) (restOf prompt)"
proof (cases "space \<in> set prompt")
  case False
  then have "indexOf prompt space = - 1" by (simp add: indexOf_eq)
  moreover from False have "prefixOf prompt = prompt"
    by (simp add: prefixOf_def takeWhile_eq_all_conv) blast
  ultimately show ?thesis
    by (simp add: parsePrompt_def restOf_def trim_Nil)
next
  case True
  define n where "n = length (takeWhile (\<lambda>x. x \<noteq> space) prompt)"
  from True have ix: "indexOf prompt space = int n" by (simp add: indexOf_eq n_def)
  have "take n prompt = prefixOf prompt"
    unfolding n_def prefixOf_def by (metis takeWhile_eq_take)
  moreover have "length (prefixOf prompt) = n" by (simp add: n_def prefixOf_def)
  ultimately show ?thesis
    using assms ix
    by (simp add: parsePrompt_def substring_def substring_from_def restOf_def Suc_nat_eq_nat_zadd1 nat_add_distrib)
qed

lemma match2_excludes_match1: "match2 p = Some a \<Longrightarrow> match1 p = None"
  by (auto simp: match1_def match2_def Let_def split: if_splits)

lemma code_chars_takeWhile: "list_all is_code_char b \<Longrightarrow> takeWhile is_code_char b = b \<and> dropWhile is_code_char b = []"
  by (simp add: list_all_iff)

lemma match3_excludes: "match3 p = Some b \<Longrightarrow> match1 p = None \<and> match2 p = None"
proof -
  assume "match3 p = Some b"
  then have h: "p = b \<or> p = gt # b" and b: "b \<noteq> []" "list_all is_code_char b"
    by (simp_all add: match3_iff)
  from b have tb: "takeWhile is_code_char b = b" "dropWhile is_code_char b = []"
    by (simp_all add: code_chars_takeWhile)
  from h show ?thesis
  proof
    assume pb: "p = b"
    show ?thesis unfolding pb by (simp add: match1_def match2_def tb)
  next
    assume "p = gt # b"
    then show ?thesis using gt_not_code_char by (simp add: match1_def match2_def)
  qed
qed

lemma part1_formA:
  "formA codes q source target \<Longrightarrow>
   parsePrompt_part1 codes p s t q r =
     \<lparr>parsedSourceLanguageCode = source, parsedTargetLanguageCode = target, parsedText = r\<rparr>"
proof -
  assume h: "formA codes q source target"
  then have "match1 q = Some (source, target)"
    by (simp add: formA_def valid_code_def is_code_def match1_iff)
  with h show ?thesis
    by (simp add: parsePrompt_part1_def formA_def valid_code_def arr_includes_def)
qed

lemma part1_formB:
  "formB codes q source \<Longrightarrow>
   parsePrompt_part1 codes p s t q r =
     \<lparr>parsedSourceLanguageCode = source, parsedTargetLanguageCode = t, parsedText = r\<rparr>"
proof -
  assume h: "formB codes q source"
  then have m: "match2 q = Some source"
    by (simp add: formB_def valid_code_def is_code_def match2_iff)
  then have "match1 q = None" by (rule match2_excludes_match1)
  with h m show ?thesis
    by (simp add: parsePrompt_part1_def parsePrompt_part2_def formB_def valid_code_def arr_includes_def)
qed

lemma part1_formC:
  "formC codes q target \<Longrightarrow>
   parsePrompt_part1 codes p s t q r =
     \<lparr>parsedSourceLanguageCode = s, parsedTargetLanguageCode = target, parsedText = r\<rparr>"
proof -
  assume h: "formC codes q target"
  then have m: "match3 q = Some target"
    by (simp add: formC_def valid_code_def is_code_def match3_iff)
  then have "match1 q = None \<and> match2 q = None" by (rule match3_excludes)
  with h m show ?thesis
    by (simp add: parsePrompt_part1_def parsePrompt_part2_def parsePrompt_part3_def formC_def
        valid_code_def arr_includes_def)
qed

lemma part1_no_form:
  assumes "\<forall>source target. \<not> formA codes q source target"
    and "\<forall>source. \<not> formB codes q source"
    and "\<forall>target. \<not> formC codes q target"
  shows "parsePrompt_part1 codes p s t q r = parsePrompt_default p s t"
proof -
  have 1: "match1 q = Some (a, b) \<Longrightarrow> \<not> (a \<in> set codes \<and> b \<in> set codes)" for a b
    using assms(1) by (auto simp: formA_def valid_code_def is_code_def match1_iff)
  have 2: "match2 q = Some a \<Longrightarrow> a \<notin> set codes" for a
    using assms(2) by (auto simp: formB_def valid_code_def is_code_def match2_iff)
  have 3: "match3 q = Some b \<Longrightarrow> b \<notin> set codes" for b
    using assms(3) by (auto simp: formC_def valid_code_def is_code_def match3_iff)
  have p3: "parsePrompt_part3 codes p s t q r = parsePrompt_default p s t"
    using 3 by (auto simp: parsePrompt_part3_def arr_includes_def split: option.splits)
  have p2: "parsePrompt_part2 codes p s t q r = parsePrompt_default p s t"
    using 2 p3 by (auto simp: parsePrompt_part2_def arr_includes_def split: option.splits)
  show ?thesis
    using 1 p2 by (auto simp: parsePrompt_part1_def arr_includes_def split: option.splits)
qed

lemmas str_eval = js_def space_def gt_def indexOf_def firstWhitespace_def is_whitespace_def
  is_code_char_def prefixOf_def restOf_def trim_def

lemmas parse_eval = parsePrompt_def parsePrompt_default_def parsePrompt_part1_def
  parsePrompt_part2_def parsePrompt_part3_def match1_def match2_def match3_def
  substring_def substring_from_def arr_includes_def

section \<open>Claims about parsePrompt\<close>

text \<open>
  \<^bold>\<open>C7\<close> (length guard). For every prompt in which the first whitespace character is
  at an index greater than 15, \<open>parsePrompt\<close> returns the old source code, the old
  target code and the whole prompt. The source tests the index of the first space
  character; the statement holds for that index (first conjunct) and for the index of
  the first whitespace character of any kind (second conjunct): a whitespace character
  other than the space is in none of the three prefix forms, so a prompt without a
  space that holds one falls through to the default case.
\<close>

theorem parsePrompt_length_guard:
  "(15 < indexOf p space \<longrightarrow> parsePrompt codes p s t = parsePrompt_default p s t) \<and>
   (\<forall>i. firstWhitespace p = Some i \<and> 15 < i \<longrightarrow>
      parsePrompt codes p s t =
        \<lparr>parsedSourceLanguageCode = s, parsedTargetLanguageCode = t, parsedText = p\<rparr>)"
proof (intro conjI allI impI)
  assume "15 < indexOf p space"
  then show "parsePrompt codes p s t = parsePrompt_default p s t"
    by (simp add: parsePrompt_def)
next
  fix i
  assume h: "firstWhitespace p = Some i \<and> 15 < i"
  then have ex: "list_ex is_whitespace p"
    and i: "i = length (takeWhile (\<lambda>c. \<not> is_whitespace c) p)"
    by (auto simp: firstWhitespace_def split: if_splits)
  show "parsePrompt codes p s t =
        \<lparr>parsedSourceLanguageCode = s, parsedTargetLanguageCode = t, parsedText = p\<rparr>"
  proof (cases "space \<in> set p")
    case True
    have "i \<le> length (takeWhile (\<lambda>x. x \<noteq> space) p)"
      unfolding i using space_is_whitespace by (intro length_takeWhile_mono) auto
    with h True have "15 < indexOf p space" by (simp add: indexOf_eq)
    then show ?thesis by (simp add: parsePrompt_def parsePrompt_default_def)
  next
    case False
    then have ix: "indexOf p space = - 1" by (simp add: indexOf_eq)
    from ex obtain w where "w \<in> set p" "is_whitespace w" by (auto simp: list_ex_iff)
    then have "match1 p = None \<and> match2 p = None \<and> match3 p = None"
      by (rule no_match_whitespace)
    then have "parsePrompt_part1 codes p s t p [] = parsePrompt_default p s t"
      by (simp add: part1_no_match)
    with ix show ?thesis by (simp add: parsePrompt_def parsePrompt_default_def)
  qed
qed

theorem parsePrompt_length_guard_witness:
  "15 < indexOf (js ''internationalize zh'') space \<and>
   firstWhitespace (js ''internationalize zh'') = Some 16 \<and>
   parsePrompt [js ''en'', js ''zh''] (js ''internationalize zh'') (js ''auto'') (js ''en'') =
     \<lparr>parsedSourceLanguageCode = js ''auto'', parsedTargetLanguageCode = js ''en'',
      parsedText = js ''internationalize zh''\<rparr>"
proof -
  have a: "15 < indexOf (js ''internationalize zh'') space"
    by (simp add: str_eval)
  have b: "firstWhitespace (js ''internationalize zh'') = Some 16"
    by (simp add: str_eval)
  from b parsePrompt_length_guard [of "js ''internationalize zh''" "[js ''en'', js ''zh'']"
      "js ''auto''" "js ''en''"]
  have "parsePrompt [js ''en'', js ''zh''] (js ''internationalize zh'') (js ''auto'') (js ''en'') =
     \<lparr>parsedSourceLanguageCode = js ''auto'', parsedTargetLanguageCode = js ''en'',
      parsedText = js ''internationalize zh''\<rparr>"
    by simp
  with a b show ?thesis by simp
qed

text \<open>
  \<^bold>\<open>C2\<close> (the three forms), as amended. When the first space character U+0020 of
  the prompt is at an index greater than 15, \<open>parsePrompt\<close> returns the old codes and
  the whole prompt. Otherwise the prefix is the part of the prompt before its first
  space character (the whole prompt if it has none), the rest is the trimmed remainder
  after that space, and: a prefix \<open>source>target\<close> with two valid codes gives
  \<open>(source, target, rest)\<close>; a prefix \<open>source>\<close> with a valid code gives
  \<open>(source, oldTarget, rest)\<close>; a prefix \<open>target\<close> or \<open>>target\<close> with a valid code gives
  \<open>(oldSource, target, rest)\<close>; a prefix of none of the three forms gives
  \<open>(oldSource, oldTarget, prompt)\<close>. A valid code is a non-empty string over
  \<^verbatim>\<open>[a-z_]\<close> that is a member of \<^verbatim>\<open>languageCodesArr\<close>. The three forms exclude each other,
  so their order does not show in the result.
\<close>

theorem parsePrompt_forms:
  "(15 < indexOf prompt space \<longrightarrow>
      parsePrompt codes prompt oldSource oldTarget =
        \<lparr>parsedSourceLanguageCode = oldSource, parsedTargetLanguageCode = oldTarget,
         parsedText = prompt\<rparr>) \<and>
   (indexOf prompt space \<le> 15 \<longrightarrow>
      (\<forall>source target. formA codes (prefixOf prompt) source target \<longrightarrow>
         parsePrompt codes prompt oldSource oldTarget =
           \<lparr>parsedSourceLanguageCode = source, parsedTargetLanguageCode = target,
            parsedText = restOf prompt\<rparr>) \<and>
      (\<forall>source. formB codes (prefixOf prompt) source \<longrightarrow>
         parsePrompt codes prompt oldSource oldTarget =
           \<lparr>parsedSourceLanguageCode = source, parsedTargetLanguageCode = oldTarget,
            parsedText = restOf prompt\<rparr>) \<and>
      (\<forall>target. formC codes (prefixOf prompt) target \<longrightarrow>
         parsePrompt codes prompt oldSource oldTarget =
           \<lparr>parsedSourceLanguageCode = oldSource, parsedTargetLanguageCode = target,
            parsedText = restOf prompt\<rparr>) \<and>
      ((\<forall>source target. \<not> formA codes (prefixOf prompt) source target) \<and>
       (\<forall>source. \<not> formB codes (prefixOf prompt) source) \<and>
       (\<forall>target. \<not> formC codes (prefixOf prompt) target) \<longrightarrow>
         parsePrompt codes prompt oldSource oldTarget =
           \<lparr>parsedSourceLanguageCode = oldSource, parsedTargetLanguageCode = oldTarget,
            parsedText = prompt\<rparr>))"
proof (intro conjI impI allI)
  assume "15 < indexOf prompt space"
  then show "parsePrompt codes prompt oldSource oldTarget =
        \<lparr>parsedSourceLanguageCode = oldSource, parsedTargetLanguageCode = oldTarget,
         parsedText = prompt\<rparr>"
    by (simp add: parsePrompt_def parsePrompt_default_def)
next
  fix source target
  assume "indexOf prompt space \<le> 15" "formA codes (prefixOf prompt) source target"
  then show "parsePrompt codes prompt oldSource oldTarget =
           \<lparr>parsedSourceLanguageCode = source, parsedTargetLanguageCode = target,
            parsedText = restOf prompt\<rparr>"
    by (simp add: parsePrompt_prefix_rest part1_formA)
next
  fix source
  assume "indexOf prompt space \<le> 15" "formB codes (prefixOf prompt) source"
  then show "parsePrompt codes prompt oldSource oldTarget =
           \<lparr>parsedSourceLanguageCode = source, parsedTargetLanguageCode = oldTarget,
            parsedText = restOf prompt\<rparr>"
    by (simp add: parsePrompt_prefix_rest part1_formB)
next
  fix target
  assume "indexOf prompt space \<le> 15" "formC codes (prefixOf prompt) target"
  then show "parsePrompt codes prompt oldSource oldTarget =
           \<lparr>parsedSourceLanguageCode = oldSource, parsedTargetLanguageCode = target,
            parsedText = restOf prompt\<rparr>"
    by (simp add: parsePrompt_prefix_rest part1_formC)
next
  assume "indexOf prompt space \<le> 15"
    and "(\<forall>source target. \<not> formA codes (prefixOf prompt) source target) \<and>
       (\<forall>source. \<not> formB codes (prefixOf prompt) source) \<and>
       (\<forall>target. \<not> formC codes (prefixOf prompt) target)"
  then show "parsePrompt codes prompt oldSource oldTarget =
           \<lparr>parsedSourceLanguageCode = oldSource, parsedTargetLanguageCode = oldTarget,
            parsedText = prompt\<rparr>"
    by (simp add: parsePrompt_prefix_rest part1_no_form parsePrompt_default_def)
qed

theorem parsePrompt_forms_witness:
  "indexOf (js ''en>zh hello'') space \<le> 15 \<and>
   formA [js ''en'', js ''zh''] (prefixOf (js ''en>zh hello'')) (js ''en'') (js ''zh'') \<and>
   parsePrompt [js ''en'', js ''zh''] (js ''en>zh hello'') (js ''auto'') (js ''auto'') =
     \<lparr>parsedSourceLanguageCode = js ''en'', parsedTargetLanguageCode = js ''zh'',
      parsedText = js ''hello''\<rparr> \<and>
   formB [js ''en'', js ''zh''] (prefixOf (js ''en> hello'')) (js ''en'') \<and>
   parsePrompt [js ''en'', js ''zh''] (js ''en> hello'') (js ''auto'') (js ''auto'') =
     \<lparr>parsedSourceLanguageCode = js ''en'', parsedTargetLanguageCode = js ''auto'',
      parsedText = js ''hello''\<rparr> \<and>
   formC [js ''en'', js ''zh''] (prefixOf (js ''>zh hello'')) (js ''zh'') \<and>
   parsePrompt [js ''en'', js ''zh''] (js ''>zh hello'') (js ''auto'') (js ''auto'') =
     \<lparr>parsedSourceLanguageCode = js ''auto'', parsedTargetLanguageCode = js ''zh'',
      parsedText = js ''hello''\<rparr> \<and>
   parsePrompt [js ''en'', js ''zh''] (js ''xx>yy hello'') (js ''auto'') (js ''auto'') =
     \<lparr>parsedSourceLanguageCode = js ''auto'', parsedTargetLanguageCode = js ''auto'',
      parsedText = js ''xx>yy hello''\<rparr>"
proof -
  let ?codes = "[js ''en'', js ''zh'']"
  have i1: "indexOf (js ''en>zh hello'') space \<le> 15" by (simp add: str_eval)
  have a: "formA ?codes (prefixOf (js ''en>zh hello'')) (js ''en'') (js ''zh'')"
    by (simp add: formA_def valid_code_def is_code_def str_eval)
  have r1: "restOf (js ''en>zh hello'') = js ''hello''" by (simp add: str_eval)
  have i2: "indexOf (js ''en> hello'') space \<le> 15" by (simp add: str_eval)
  have b: "formB ?codes (prefixOf (js ''en> hello'')) (js ''en'')"
    by (simp add: formB_def valid_code_def is_code_def str_eval)
  have r2: "restOf (js ''en> hello'') = js ''hello''" by (simp add: str_eval)
  have i3: "indexOf (js ''>zh hello'') space \<le> 15" by (simp add: str_eval)
  have c: "formC ?codes (prefixOf (js ''>zh hello'')) (js ''zh'')"
    by (simp add: formC_def valid_code_def is_code_def str_eval)
  have r3: "restOf (js ''>zh hello'') = js ''hello''" by (simp add: str_eval)
  have i4: "indexOf (js ''xx>yy hello'') space \<le> 15" by (simp add: str_eval)
  have p4: "prefixOf (js ''xx>yy hello'') = js ''xx>yy''" by (simp add: str_eval)
  have na: "\<forall>source target. \<not> formA ?codes (prefixOf (js ''xx>yy hello'')) source target"
    unfolding p4 by (auto simp: formA_def valid_code_def js_def gt_def)
  have nb: "\<forall>source. \<not> formB ?codes (prefixOf (js ''xx>yy hello'')) source"
    unfolding p4 by (auto simp: formB_def valid_code_def js_def gt_def)
  have nc: "\<forall>target. \<not> formC ?codes (prefixOf (js ''xx>yy hello'')) target"
    unfolding p4 by (auto simp: formC_def valid_code_def js_def gt_def)
  note t1 = parsePrompt_forms [where prompt = "js ''en>zh hello''" and codes = ?codes
      and oldSource = "js ''auto''" and oldTarget = "js ''auto''"]
  note t2 = parsePrompt_forms [where prompt = "js ''en> hello''" and codes = ?codes
      and oldSource = "js ''auto''" and oldTarget = "js ''auto''"]
  note t3 = parsePrompt_forms [where prompt = "js ''>zh hello''" and codes = ?codes
      and oldSource = "js ''auto''" and oldTarget = "js ''auto''"]
  note t4 = parsePrompt_forms [where prompt = "js ''xx>yy hello''" and codes = ?codes
      and oldSource = "js ''auto''" and oldTarget = "js ''auto''"]
  have e1: "parsePrompt ?codes (js ''en>zh hello'') (js ''auto'') (js ''auto'') =
     \<lparr>parsedSourceLanguageCode = js ''en'', parsedTargetLanguageCode = js ''zh'',
      parsedText = js ''hello''\<rparr>"
    using t1 i1 a r1 by metis
  have e2: "parsePrompt ?codes (js ''en> hello'') (js ''auto'') (js ''auto'') =
     \<lparr>parsedSourceLanguageCode = js ''en'', parsedTargetLanguageCode = js ''auto'',
      parsedText = js ''hello''\<rparr>"
    using t2 i2 b r2 by metis
  have e3: "parsePrompt ?codes (js ''>zh hello'') (js ''auto'') (js ''auto'') =
     \<lparr>parsedSourceLanguageCode = js ''auto'', parsedTargetLanguageCode = js ''zh'',
      parsedText = js ''hello''\<rparr>"
    using t3 i3 c r3 by metis
  have e4: "parsePrompt ?codes (js ''xx>yy hello'') (js ''auto'') (js ''auto'') =
     \<lparr>parsedSourceLanguageCode = js ''auto'', parsedTargetLanguageCode = js ''auto'',
      parsedText = js ''xx>yy hello''\<rparr>"
    using t4 i4 na nb nc by metis
  from i1 a e1 b e2 c e3 e4 show ?thesis by simp
qed

text \<open>
  \<^bold>\<open>C2\<close> as worded fails where the first whitespace character of the prompt is not a
  space: in \<^verbatim>\<open>"en>zh\thello"\<close> the tab is the first whitespace character, at index 5, and
  the specification's parser takes \<^verbatim>\<open>en>zh\<close> as the prefix and gives
  \<open>(en, zh, hello)\<close>; \<^verbatim>\<open>indexOf(' ')\<close> finds no space, the whole prompt is the prefix, no
  expression matches it and \<open>parsePrompt\<close> returns the old codes with the whole prompt.
  The same happens with the ideographic space U+3000 in place of the tab.
\<close>

theorem parsePrompt_whitespace_counterexample:
  "firstWhitespace (js ''en>zh'' @ [0x09] @ js ''hello'') = Some 5 \<and>
   spec_parse [js ''en'', js ''zh''] (js ''en>zh'' @ [0x09] @ js ''hello'') (js ''auto'') (js ''auto'') =
     \<lparr>parsedSourceLanguageCode = js ''en'', parsedTargetLanguageCode = js ''zh'',
      parsedText = js ''hello''\<rparr> \<and>
   parsePrompt [js ''en'', js ''zh''] (js ''en>zh'' @ [0x09] @ js ''hello'') (js ''auto'') (js ''auto'') =
     \<lparr>parsedSourceLanguageCode = js ''auto'', parsedTargetLanguageCode = js ''auto'',
      parsedText = js ''en>zh'' @ [0x09] @ js ''hello''\<rparr> \<and>
   parsePrompt [js ''en'', js ''zh''] (js ''en>zh'' @ [0x09] @ js ''hello'') (js ''auto'') (js ''auto'') \<noteq>
   spec_parse [js ''en'', js ''zh''] (js ''en>zh'' @ [0x09] @ js ''hello'') (js ''auto'') (js ''auto'') \<and>
   firstWhitespace (js ''en>zh'' @ [0x3000] @ js ''hello'') = Some 5 \<and>
   parsePrompt [js ''en'', js ''zh''] (js ''en>zh'' @ [0x3000] @ js ''hello'') (js ''auto'') (js ''auto'') \<noteq>
   spec_parse [js ''en'', js ''zh''] (js ''en>zh'' @ [0x3000] @ js ''hello'') (js ''auto'') (js ''auto'')"
  by (simp add: spec_parse_def parse_eval str_eval)

section \<open>Claims about the order of the handler\<close>

lemmas example_eval = exampleEnv_def exampleSettings_def exampleLanguageNames_def
  echoService_def downService_def narrowService_def localized_def

lemmas message_eval = noServicesConfigured_def noServicesConfiguredSubtitle_def
  unsupportedSourceLanguage_def unsupportedSourceLanguageSubtitle_def
  unsupportedTargetLanguage_def unsupportedTargetLanguageSubtitle_def pleaseCheck_def
  defaultSelected_def quickSelect_def arrow_def

lemmas handler_eval = query_def Let_def quickSelectList_def quickSelectItem_def validPair_def
  pairCodes_def to_string_def or_else_def defaultSelectedItem_def languageName_def
  noServicesItem_def unsupportedSourceItem_def unsupportedTargetItem_def warningItem_def
  dispatch_def translateTask_def responseItem_def regExp_test_def

lemma trim_eq_Nil_iff: "trim s = [] \<longleftrightarrow> (\<forall>x\<in>set s. is_whitespace x)"
proof
  assume "trim s = []"
  then have a: "\<forall>x\<in>set (dropWhile is_whitespace s). is_whitespace x"
    by (simp add: trim_def dropWhile_eq_Nil_conv)
  have "dropWhile is_whitespace s = []"
  proof (rule ccontr)
    assume n: "dropWhile is_whitespace s \<noteq> []"
    then have "\<not> is_whitespace (hd (dropWhile is_whitespace s))" by (rule hd_dropWhile)
    moreover from n have "hd (dropWhile is_whitespace s) \<in> set (dropWhile is_whitespace s)"
      by simp
    ultimately show False using a by blast
  qed
  then show "\<forall>x\<in>set s. is_whitespace x" by (simp add: dropWhile_eq_Nil_conv)
next
  assume "\<forall>x\<in>set s. is_whitespace x"
  then have d: "dropWhile is_whitespace s = []" by simp
  show "trim s = []" unfolding trim_def d by simp
qed

lemma dropWhile_id: "xs = [] \<or> \<not> P (hd xs) \<Longrightarrow> dropWhile P xs = xs"
  by (cases xs) auto

lemma last_dropWhile_eq: "dropWhile P xs \<noteq> [] \<Longrightarrow> last (dropWhile P xs) = last xs"
  by (metis last_appendR takeWhile_dropWhile_id)

lemma trim_idem: "trim (trim s) = trim s"
proof -
  define d where "d = dropWhile is_whitespace s"
  define e where "e = dropWhile is_whitespace (rev d)"
  have t: "trim s = rev e" by (simp add: trim_def d_def e_def)
  show ?thesis
  proof (cases "e = []")
    case True
    with t have "trim s = []" by simp
    then show ?thesis by (simp add: trim_Nil)
  next
    case False
    then have he: "\<not> is_whitespace (hd e)" unfolding e_def by (rule hd_dropWhile)
    from False have dn: "d \<noteq> []" by (auto simp: e_def)
    then have hd: "\<not> is_whitespace (hd d)" unfolding d_def by (rule hd_dropWhile)
    from False have "last e = last (rev d)" unfolding e_def by (rule last_dropWhile_eq)
    with dn have "last e = hd d" by (simp add: last_rev)
    with False hd have "\<not> is_whitespace (hd (rev e))" by (simp add: hd_rev)
    then have 1: "dropWhile is_whitespace (rev e) = rev e" by (simp add: dropWhile_id)
    from he have 2: "dropWhile is_whitespace e = e" by (simp add: dropWhile_id)
    show ?thesis unfolding t by (simp add: trim_def 1 2)
  qed
qed

lemma trim_prefix_nonblank:
  assumes "formA codes (prefixOf prompt) source target"
  shows "trim prompt \<noteq> []"
proof -
  from assms have "prefixOf prompt = source @ [gt] @ target" by (simp add: formA_def)
  then have "gt \<in> set (prefixOf prompt)" by simp
  then have "gt \<in> set prompt" unfolding prefixOf_def by (meson set_takeWhileD)
  moreover have "\<not> is_whitespace gt" using whitespace_not_gt by blast
  ultimately show ?thesis by (auto simp: trim_eq_Nil_iff)
qed

text \<open>
  \<^bold>\<open>C9\<close> (preconditions). The handler checks, in this order, that services are
  configured, that the settings' source code is a key of \<^verbatim>\<open>languageNamesMap\<close> and that
  the settings' target code is one. The first check that fails ends the query with
  exactly one warning item and no \<^verbatim>\<open>translate\<close> call: the first conjunct holds whatever
  the codes are, the second whatever the target code is. In particular a query without
  configured services yields the one "no services configured" item and no call.
\<close>

theorem query_preconditions:
  "(services settings = None \<or> services settings = Some [] \<longrightarrow>
      calls (query env ax prompt settings) = [] \<and>
      response (query env ax prompt settings) =
        Inr [\<lparr>title = noServicesConfigured (interfaceLanguage settings),
              subtitle = noServicesConfiguredSubtitle (interfaceLanguage settings),
              icoPath = assetsPath env @ js ''/warning.png'', jsonRPCAction = None\<rparr>]) \<and>
   (\<forall>names. services settings = Some names \<and> names \<noteq> [] \<and>
      languageNamesMap env (sourceLanguageCode settings) = None \<longrightarrow>
      calls (query env ax prompt settings) = [] \<and>
      response (query env ax prompt settings) =
        Inr [\<lparr>title = unsupportedSourceLanguage (interfaceLanguage settings) @ js '' ''
                      @ sourceLanguageCode settings,
              subtitle = unsupportedSourceLanguageSubtitle (interfaceLanguage settings),
              icoPath = assetsPath env @ js ''/warning.png'', jsonRPCAction = None\<rparr>]) \<and>
   (\<forall>names. services settings = Some names \<and> names \<noteq> [] \<and>
      languageNamesMap env (sourceLanguageCode settings) \<noteq> None \<and>
      languageNamesMap env (targetLanguageCode settings) = None \<longrightarrow>
      calls (query env ax prompt settings) = [] \<and>
      response (query env ax prompt settings) =
        Inr [\<lparr>title = unsupportedTargetLanguage (interfaceLanguage settings) @ js '' ''
                      @ targetLanguageCode settings,
              subtitle = unsupportedTargetLanguageSubtitle (interfaceLanguage settings),
              icoPath = assetsPath env @ js ''/warning.png'', jsonRPCAction = None\<rparr>])"
  by (auto simp: query_def Let_def noServicesItem_def unsupportedSourceItem_def
      unsupportedTargetItem_def warningItem_def)

theorem query_preconditions_witness:
  "services (exampleSettings\<lparr>services := Some [], sourceLanguageCode := js ''xx''\<rparr>) = Some [] \<and>
   calls (query exampleEnv None (js ''en>zh hello'')
            (exampleSettings\<lparr>services := Some [], sourceLanguageCode := js ''xx''\<rparr>)) = [] \<and>
   response (query exampleEnv None (js ''en>zh hello'')
            (exampleSettings\<lparr>services := Some [], sourceLanguageCode := js ''xx''\<rparr>)) =
     Inr [\<lparr>title = js ''No services configured'',
           subtitle = js ''Please check your configuration.'',
           icoPath = js ''assets/warning.png'', jsonRPCAction = None\<rparr>] \<and>
   languageNamesMap exampleEnv (js ''xx'') = None \<and>
   calls (query exampleEnv None (js ''en>zh hello'')
            (exampleSettings\<lparr>sourceLanguageCode := js ''xx'', targetLanguageCode := js ''yy''\<rparr>)) = [] \<and>
   response (query exampleEnv None (js ''en>zh hello'')
            (exampleSettings\<lparr>sourceLanguageCode := js ''xx'', targetLanguageCode := js ''yy''\<rparr>)) =
     Inr [\<lparr>title = js ''Unsupported source language xx'',
           subtitle = js ''Please check your configuration.'',
           icoPath = js ''assets/warning.png'', jsonRPCAction = None\<rparr>] \<and>
   languageNamesMap exampleEnv (js ''en'') \<noteq> None \<and>
   languageNamesMap exampleEnv (js ''yy'') = None \<and>
   calls (query exampleEnv None (js ''en>zh hello'')
            (exampleSettings\<lparr>sourceLanguageCode := js ''en'', targetLanguageCode := js ''yy''\<rparr>)) = [] \<and>
   response (query exampleEnv None (js ''en>zh hello'')
            (exampleSettings\<lparr>sourceLanguageCode := js ''en'', targetLanguageCode := js ''yy''\<rparr>)) =
     Inr [\<lparr>title = js ''Unsupported target language yy'',
           subtitle = js ''Please check your configuration.'',
           icoPath = js ''assets/warning.png'', jsonRPCAction = None\<rparr>]"
proof -
  let ?p = "js ''en>zh hello''"
  let ?s1 = "exampleSettings\<lparr>services := Some [], sourceLanguageCode := js ''xx''\<rparr>"
  let ?s2 = "exampleSettings\<lparr>sourceLanguageCode := js ''xx'', targetLanguageCode := js ''yy''\<rparr>"
  let ?s3 = "exampleSettings\<lparr>sourceLanguageCode := js ''en'', targetLanguageCode := js ''yy''\<rparr>"
  have h1: "services ?s1 = Some []" by simp
  have h2: "services ?s2 = Some [js ''echo''] \<and> [js ''echo''] \<noteq> [] \<and>
            languageNamesMap exampleEnv (sourceLanguageCode ?s2) = None"
    by (simp add: example_eval js_def)
  have h3: "services ?s3 = Some [js ''echo''] \<and> [js ''echo''] \<noteq> [] \<and>
            languageNamesMap exampleEnv (sourceLanguageCode ?s3) \<noteq> None \<and>
            languageNamesMap exampleEnv (targetLanguageCode ?s3) = None"
    by (simp add: example_eval js_def)
  note t1 = query_preconditions [where settings = ?s1 and env = exampleEnv and ax = None
      and prompt = ?p]
  note t2 = query_preconditions [where settings = ?s2 and env = exampleEnv and ax = None
      and prompt = ?p]
  note t3 = query_preconditions [where settings = ?s3 and env = exampleEnv and ax = None
      and prompt = ?p]
  from t1 h1 have r1: "calls (query exampleEnv None ?p ?s1) = [] \<and>
      response (query exampleEnv None ?p ?s1) =
        Inr [\<lparr>title = noServicesConfigured (interfaceLanguage ?s1),
              subtitle = noServicesConfiguredSubtitle (interfaceLanguage ?s1),
              icoPath = assetsPath exampleEnv @ js ''/warning.png'', jsonRPCAction = None\<rparr>]"
    by blast
  from t2 h2 have r2: "calls (query exampleEnv None ?p ?s2) = [] \<and>
      response (query exampleEnv None ?p ?s2) =
        Inr [\<lparr>title = unsupportedSourceLanguage (interfaceLanguage ?s2) @ js '' ''
                      @ sourceLanguageCode ?s2,
              subtitle = unsupportedSourceLanguageSubtitle (interfaceLanguage ?s2),
              icoPath = assetsPath exampleEnv @ js ''/warning.png'', jsonRPCAction = None\<rparr>]"
    by blast
  from t3 h3 have r3: "calls (query exampleEnv None ?p ?s3) = [] \<and>
      response (query exampleEnv None ?p ?s3) =
        Inr [\<lparr>title = unsupportedTargetLanguage (interfaceLanguage ?s3) @ js '' ''
                      @ targetLanguageCode ?s3,
              subtitle = unsupportedTargetLanguageSubtitle (interfaceLanguage ?s3),
              icoPath = assetsPath exampleEnv @ js ''/warning.png'', jsonRPCAction = None\<rparr>]"
    by blast
  have e: "interfaceLanguage ?s1 = EN" "interfaceLanguage ?s2 = EN" "interfaceLanguage ?s3 = EN"
    "assetsPath exampleEnv = js ''assets''"
    by (simp_all add: example_eval)
  have n: "languageNamesMap exampleEnv (js ''xx'') = None"
    "languageNamesMap exampleEnv (js ''en'') \<noteq> None"
    "languageNamesMap exampleEnv (js ''yy'') = None"
    by (simp_all add: example_eval js_def)
  from r1 r2 r3 h1 n show ?thesis
    unfolding e by (simp add: message_eval localized_def js_def exampleSettings_def)
qed

text \<open>
  \<^bold>\<open>C3\<close> (quick select), as amended. For a query that passes the three precondition
  checks: when language pairs are configured and the prompt itself is empty after
  trimming, the handler adds the quick-select list and dispatches nothing. When the
  prompt is not blank (or no pairs are configured) and the text that \<open>parsePrompt\<close>
  returns is empty, as for a prompt that is only a prefix, the handler adds the single
  "default selected" item of the parsed pair, and dispatches nothing.
\<close>

theorem query_quick_select:
  "services settings = Some names \<and> names \<noteq> [] \<and>
   languageNamesMap env (sourceLanguageCode settings) \<noteq> None \<and>
   languageNamesMap env (targetLanguageCode settings) \<noteq> None \<longrightarrow>
     (\<forall>pairs. languagePairs settings = Some pairs \<and> pairs \<noteq> [] \<and> trim prompt = [] \<longrightarrow>
        calls (query env ax prompt settings) = [] \<and>
        response (query env ax prompt settings) = quickSelectList env settings pairs) \<and>
     ((languagePairs settings = None \<or> languagePairs settings = Some [] \<or> trim prompt \<noteq> []) \<and>
      trim (parsedText (parsePrompt (languageCodesArr env) prompt (sourceLanguageCode settings)
              (targetLanguageCode settings))) = [] \<longrightarrow>
        calls (query env ax prompt settings) = [] \<and>
        response (query env ax prompt settings) =
          (case defaultSelectedItem env (interfaceLanguage settings)
                  (parsedSourceLanguageCode
                     (parsePrompt (languageCodesArr env) prompt (sourceLanguageCode settings)
                        (targetLanguageCode settings)))
                  (parsedTargetLanguageCode
                     (parsePrompt (languageCodesArr env) prompt (sourceLanguageCode settings)
                        (targetLanguageCode settings))) of
             Inl e \<Rightarrow> Inl e
           | Inr i \<Rightarrow> Inr [i]))"
  by (auto simp: query_def Let_def)

theorem query_quick_select_witness:
  "trim (js ''  '') = [] \<and>
   response (query exampleEnv None (js ''  '') exampleSettings) =
     quickSelectList exampleEnv exampleSettings [js ''zh>en'', js ''xx>en'', js ''en > ja''] \<and>
   calls (query exampleEnv None (js ''  '') exampleSettings) = [] \<and>
   trim (js ''en>zh'') \<noteq> [] \<and>
   calls (query exampleEnv None (js ''en>zh'') exampleSettings) = [] \<and>
   response (query exampleEnv None (js ''en>zh'') exampleSettings) =
     Inr [\<lparr>title = js ''English'' @ arrow @ js ''Chinese'',
           subtitle = js ''Default selected:  en'' @ arrow @ js ''zh'',
           icoPath = js ''assets/info.png'', jsonRPCAction = None\<rparr>]"
proof -
  have pre: "services exampleSettings = Some [js ''echo''] \<and> [js ''echo''] \<noteq> [] \<and>
     languageNamesMap exampleEnv (sourceLanguageCode exampleSettings) \<noteq> None \<and>
     languageNamesMap exampleEnv (targetLanguageCode exampleSettings) \<noteq> None"
    by (simp add: example_eval js_def)
  have pairs: "languagePairs exampleSettings = Some [js ''zh>en'', js ''xx>en'', js ''en > ja'']"
    by (simp add: example_eval)
  have blank: "trim (js ''  '') = []" by (simp add: str_eval)
  have nonblank: "trim (js ''en>zh'') \<noteq> []" by (simp add: str_eval)
  have p: "parsePrompt (languageCodesArr exampleEnv) (js ''en>zh'')
             (sourceLanguageCode exampleSettings) (targetLanguageCode exampleSettings) =
           \<lparr>parsedSourceLanguageCode = js ''en'', parsedTargetLanguageCode = js ''zh'',
            parsedText = []\<rparr>"
    by (simp add: parse_eval str_eval example_eval)
  note t1 = query_quick_select [where settings = exampleSettings and env = exampleEnv
      and names = "[js ''echo'']" and prompt = "js ''  ''" and ax = None]
  note t2 = query_quick_select [where settings = exampleSettings and env = exampleEnv
      and names = "[js ''echo'']" and prompt = "js ''en>zh''" and ax = None]
  from t1 pre pairs blank
  have r1: "calls (query exampleEnv None (js ''  '') exampleSettings) = [] \<and>
      response (query exampleEnv None (js ''  '') exampleSettings) =
        quickSelectList exampleEnv exampleSettings [js ''zh>en'', js ''xx>en'', js ''en > ja'']"
    by blast
  from t2 pre nonblank p
  have r2: "calls (query exampleEnv None (js ''en>zh'') exampleSettings) = [] \<and>
      response (query exampleEnv None (js ''en>zh'') exampleSettings) =
        (case defaultSelectedItem exampleEnv (interfaceLanguage exampleSettings)
                (js ''en'') (js ''zh'') of
           Inl e \<Rightarrow> Inl e
         | Inr i \<Rightarrow> Inr [i])"
    by (simp add: trim_Nil)
  have d: "defaultSelectedItem exampleEnv (interfaceLanguage exampleSettings) (js ''en'') (js ''zh'') =
      Inr \<lparr>title = js ''English'' @ arrow @ js ''Chinese'',
           subtitle = js ''Default selected:  en'' @ arrow @ js ''zh'',
           icoPath = js ''assets/info.png'', jsonRPCAction = None\<rparr>"
    by (simp add: defaultSelectedItem_def languageName_def example_eval message_eval js_def)
  from r1 r2 blank nonblank show ?thesis by (simp add: d)
qed

text \<open>
  \<^bold>\<open>C3\<close> as worded fails on the prefix-only prompt \<^verbatim>\<open>en>zh\<close> with three configured
  pairs: the parsed text is empty, and the handler adds one item, "English -> Chinese",
  not the quick-select list. The test of line 72 is on the prompt, before
  \<open>parsePrompt\<close> runs.
\<close>

theorem query_quick_select_counterexample:
  "languagePairs exampleSettings = Some [js ''zh>en'', js ''xx>en'', js ''en > ja''] \<and>
   parsedText (parsePrompt (languageCodesArr exampleEnv) (js ''en>zh'')
                 (sourceLanguageCode exampleSettings) (targetLanguageCode exampleSettings)) = [] \<and>
   calls (query exampleEnv None (js ''en>zh'') exampleSettings) = [] \<and>
   response (query exampleEnv None (js ''en>zh'') exampleSettings) =
     Inr [\<lparr>title = js ''English'' @ arrow @ js ''Chinese'',
           subtitle = js ''Default selected:  en'' @ arrow @ js ''zh'',
           icoPath = js ''assets/info.png'', jsonRPCAction = None\<rparr>] \<and>
   quickSelectList exampleEnv exampleSettings [js ''zh>en'', js ''xx>en'', js ''en > ja''] =
     Inr [\<lparr>title = js ''Auto'' @ arrow @ js ''Auto'',
           subtitle = js ''Default selected:  auto'' @ arrow @ js ''auto'',
           icoPath = js ''assets/info.png'', jsonRPCAction = None\<rparr>,
          \<lparr>title = js ''Chinese'' @ arrow @ js ''English'',
           subtitle = js ''Quick select:  zh'' @ arrow @ js ''en'',
           icoPath = js ''assets/info.png'',
           jsonRPCAction = Some (ChangeQuery (js ''tr zh>en '') True)\<rparr>,
          \<lparr>title = js ''English'' @ arrow @ js ''Japanese'',
           subtitle = js ''Quick select:  en'' @ arrow @ js ''ja'',
           icoPath = js ''assets/info.png'',
           jsonRPCAction = Some (ChangeQuery (js ''tr en > ja '') True)\<rparr>] \<and>
   response (query exampleEnv None (js ''en>zh'') exampleSettings) \<noteq>
     quickSelectList exampleEnv exampleSettings [js ''zh>en'', js ''xx>en'', js ''en > ja'']"
  by (simp add: handler_eval parse_eval str_eval example_eval message_eval)

text \<open>
  \<^bold>\<open>C4\<close> (checks and parsing), as amended. The checks for an unsupported source or
  target language run before \<open>parsePrompt\<close> and read the codes of the settings: when
  the settings' source code (or else the settings' target code) is not a key of
  \<^verbatim>\<open>languageNamesMap\<close>, the query ends with the warning item and without dispatch,
  whatever the prompt is. When both are keys, a prompt whose prefix is a valid
  \<open>source>target\<close> pair and whose rest is not empty is dispatched with the codes of the
  prefix.
\<close>

theorem query_checks_settings_codes:
  "services settings = Some names \<and> names \<noteq> [] \<longrightarrow>
     (languageNamesMap env (sourceLanguageCode settings) = None \<longrightarrow>
        calls (query env ax prompt settings) = [] \<and>
        response (query env ax prompt settings) = Inr [unsupportedSourceItem env settings]) \<and>
     (languageNamesMap env (sourceLanguageCode settings) \<noteq> None \<and>
      languageNamesMap env (targetLanguageCode settings) = None \<longrightarrow>
        calls (query env ax prompt settings) = [] \<and>
        response (query env ax prompt settings) = Inr [unsupportedTargetItem env settings]) \<and>
     (languageNamesMap env (sourceLanguageCode settings) \<noteq> None \<and>
      languageNamesMap env (targetLanguageCode settings) \<noteq> None \<longrightarrow>
        (\<forall>source target.
           indexOf prompt space \<le> 15 \<and>
           formA (languageCodesArr env) (prefixOf prompt) source target \<and>
           restOf prompt \<noteq> [] \<longrightarrow>
           query env ax prompt settings =
             dispatch env
               (case ax of None \<Rightarrow> createAxiosInstance env settings | Some c \<Rightarrow> c)
               settings names source target (restOf prompt)))"
proof (intro impI conjI allI)
  assume s: "services settings = Some names \<and> names \<noteq> []"
  {
    assume "languageNamesMap env (sourceLanguageCode settings) = None"
    with s show "calls (query env ax prompt settings) = []"
      and "response (query env ax prompt settings) = Inr [unsupportedSourceItem env settings]"
      by (auto simp: query_def Let_def)
  next
    assume "languageNamesMap env (sourceLanguageCode settings) \<noteq> None \<and>
      languageNamesMap env (targetLanguageCode settings) = None"
    with s show "calls (query env ax prompt settings) = []"
      and "response (query env ax prompt settings) = Inr [unsupportedTargetItem env settings]"
      by (auto simp: query_def Let_def)
  next
    fix source target
    assume n: "languageNamesMap env (sourceLanguageCode settings) \<noteq> None \<and>
      languageNamesMap env (targetLanguageCode settings) \<noteq> None"
      and f: "indexOf prompt space \<le> 15 \<and>
           formA (languageCodesArr env) (prefixOf prompt) source target \<and>
           restOf prompt \<noteq> []"
    from f have nb: "trim prompt \<noteq> []" using trim_prefix_nonblank by blast
    from f have p: "parsePrompt (languageCodesArr env) prompt (sourceLanguageCode settings)
        (targetLanguageCode settings) =
        \<lparr>parsedSourceLanguageCode = source, parsedTargetLanguageCode = target,
         parsedText = restOf prompt\<rparr>"
      by (simp add: parsePrompt_prefix_rest part1_formA)
    have "trim (restOf prompt) = restOf prompt" by (simp add: restOf_def trim_idem)
    with f have tr: "trim (restOf prompt) \<noteq> []" by simp
    from s n nb tr f show "query env ax prompt settings =
             dispatch env
               (case ax of None \<Rightarrow> createAxiosInstance env settings | Some c \<Rightarrow> c)
               settings names source target (restOf prompt)"
      by (auto simp: query_def Let_def p)
  }
qed

theorem query_checks_settings_codes_witness:
  "services (exampleSettings\<lparr>sourceLanguageCode := js ''xx''\<rparr>) = Some [js ''echo''] \<and>
   languageNamesMap exampleEnv (js ''xx'') = None \<and>
   calls (query exampleEnv None (js ''en>zh hello'')
            (exampleSettings\<lparr>sourceLanguageCode := js ''xx''\<rparr>)) = [] \<and>
   response (query exampleEnv None (js ''en>zh hello'')
            (exampleSettings\<lparr>sourceLanguageCode := js ''xx''\<rparr>)) =
     Inr [unsupportedSourceItem exampleEnv (exampleSettings\<lparr>sourceLanguageCode := js ''xx''\<rparr>)] \<and>
   formA (languageCodesArr exampleEnv) (prefixOf (js ''en>zh hello'')) (js ''en'') (js ''zh'') \<and>
   restOf (js ''en>zh hello'') = js ''hello'' \<and>
   query exampleEnv None (js ''en>zh hello'') exampleSettings =
     dispatch exampleEnv () exampleSettings [js ''echo''] (js ''en'') (js ''zh'') (js ''hello'') \<and>
   calls (query exampleEnv None (js ''en>zh hello'') exampleSettings) =
     [\<lparr>calledService = js ''echo'', argText = js ''hello'', argSource = js ''en'',
       argTarget = Some (js ''zh-CN''), argClient = (), argSettings = exampleSettings\<rparr>] \<and>
   response (query exampleEnv None (js ''en>zh hello'') exampleSettings) =
     Inr [\<lparr>title = js ''echo hello'',
           subtitle = js ''English'' @ arrow @ js ''Chinese  [Echo]'',
           icoPath = js ''assets/service_icon/echo.png'',
           jsonRPCAction = Some (Custom (js ''copy'') [js ''echo hello''])\<rparr>]"
proof -
  let ?p = "js ''en>zh hello''"
  let ?s1 = "exampleSettings\<lparr>sourceLanguageCode := js ''xx''\<rparr>"
  have h1: "services ?s1 = Some [js ''echo''] \<and> [js ''echo''] \<noteq> []"
    by (simp add: example_eval)
  have n1: "languageNamesMap exampleEnv (sourceLanguageCode ?s1) = None"
    by (simp add: example_eval js_def)
  have h2: "services exampleSettings = Some [js ''echo''] \<and> [js ''echo''] \<noteq> []"
    by (simp add: example_eval)
  have n2: "languageNamesMap exampleEnv (sourceLanguageCode exampleSettings) \<noteq> None \<and>
      languageNamesMap exampleEnv (targetLanguageCode exampleSettings) \<noteq> None"
    by (simp add: example_eval js_def)
  have i: "indexOf ?p space \<le> 15" by (simp add: str_eval)
  have a: "formA (languageCodesArr exampleEnv) (prefixOf ?p) (js ''en'') (js ''zh'')"
    by (simp add: formA_def valid_code_def is_code_def str_eval example_eval)
  have r: "restOf ?p = js ''hello''" by (simp add: str_eval)
  then have rn: "restOf ?p \<noteq> []" by (simp add: js_def)
  note t1 = query_checks_settings_codes [where settings = ?s1 and env = exampleEnv
      and names = "[js ''echo'']" and prompt = ?p and ax = None]
  note t2 = query_checks_settings_codes [where settings = exampleSettings and env = exampleEnv
      and names = "[js ''echo'']" and prompt = ?p and ax = None]
  from t1 h1 n1 have r1: "calls (query exampleEnv None ?p ?s1) = [] \<and>
        response (query exampleEnv None ?p ?s1) = Inr [unsupportedSourceItem exampleEnv ?s1]"
    by blast
  from t2 h2 n2 i a rn
  have "query exampleEnv None ?p exampleSettings =
     dispatch exampleEnv (case None of None \<Rightarrow> createAxiosInstance exampleEnv exampleSettings
                          | Some c \<Rightarrow> c)
       exampleSettings [js ''echo''] (js ''en'') (js ''zh'') (restOf ?p)"
    by blast
  then have r2: "query exampleEnv None ?p exampleSettings =
     dispatch exampleEnv () exampleSettings [js ''echo''] (js ''en'') (js ''zh'') (js ''hello'')"
    by (simp add: r)
  have d: "calls (dispatch exampleEnv () exampleSettings [js ''echo''] (js ''en'') (js ''zh'')
                    (js ''hello'')) =
     [\<lparr>calledService = js ''echo'', argText = js ''hello'', argSource = js ''en'',
       argTarget = Some (js ''zh-CN''), argClient = (), argSettings = exampleSettings\<rparr>] \<and>
     response (dispatch exampleEnv () exampleSettings [js ''echo''] (js ''en'') (js ''zh'')
                    (js ''hello'')) =
     Inr [\<lparr>title = js ''echo hello'',
           subtitle = js ''English'' @ arrow @ js ''Chinese  [Echo]'',
           icoPath = js ''assets/service_icon/echo.png'',
           jsonRPCAction = Some (Custom (js ''copy'') [js ''echo hello''])\<rparr>]"
    by (simp add: handler_eval example_eval message_eval js_def)
  have x: "languageNamesMap exampleEnv (js ''xx'') = None" using n1 by simp
  from h1 x r1 a r r2 d show ?thesis by simp
qed

text \<open>
  \<^bold>\<open>C4\<close> as worded fails on the prompt \<^verbatim>\<open>en>zh hello\<close> with the settings' source code
  \<^verbatim>\<open>xx\<close>: the prefix supplies the valid pair \<open>(en, zh)\<close>, both keys of
  \<^verbatim>\<open>languageNamesMap\<close>, and the query still ends with "Unsupported source language xx"
  and no call.
\<close>

theorem query_checks_settings_codes_counterexample:
  "parsePrompt (languageCodesArr exampleEnv) (js ''en>zh hello'') (js ''xx'') (js ''auto'') =
     \<lparr>parsedSourceLanguageCode = js ''en'', parsedTargetLanguageCode = js ''zh'',
      parsedText = js ''hello''\<rparr> \<and>
   languageNamesMap exampleEnv (js ''en'') \<noteq> None \<and>
   languageNamesMap exampleEnv (js ''zh'') \<noteq> None \<and>
   languageNamesMap exampleEnv (js ''xx'') = None \<and>
   services (exampleSettings\<lparr>sourceLanguageCode := js ''xx''\<rparr>) = Some [js ''echo''] \<and>
   calls (query exampleEnv None (js ''en>zh hello'')
            (exampleSettings\<lparr>sourceLanguageCode := js ''xx''\<rparr>)) = [] \<and>
   response (query exampleEnv None (js ''en>zh hello'')
            (exampleSettings\<lparr>sourceLanguageCode := js ''xx''\<rparr>)) =
     Inr [\<lparr>title = js ''Unsupported source language xx'',
           subtitle = js ''Please check your configuration.'',
           icoPath = js ''assets/warning.png'', jsonRPCAction = None\<rparr>]"
  by (simp add: handler_eval parse_eval str_eval example_eval message_eval)

section \<open>Claims about the shared target of the dispatch\<close>

text \<open>The variable \<^verbatim>\<open>targetLanguageCode\<close> only ever holds its value at the start of the
  dispatch or the sniffed code, and once it holds the sniffed code it keeps it.\<close>

lemma translatePromises_append:
  "translatePromises env client settings sourceCode input (xs @ ys) t =
     (case translatePromises env client settings sourceCode input xs t of
        (t1, c1, p1) \<Rightarrow>
          (case translatePromises env client settings sourceCode input ys t1 of
             (t2, c2, p2) \<Rightarrow> (t2, c1 @ c2, p1 @ p2)))"
  by (induction xs arbitrary: t) (auto split: prod.splits)

lemma translatePromises_Cons_fst:
  "fst (translatePromises env client settings sourceCode input (nm # nms) t) =
   fst (translatePromises env client settings sourceCode input nms
          (fst (translateTask env client settings sourceCode input nm t)))"
  by (auto split: prod.splits)

lemma translateTask_target:
  "fst (translateTask env client settings sourceCode input nm t) = t \<or>
   fst (translateTask env client settings sourceCode input nm t) = sniff input"
  by (auto simp: translateTask_def sniff_def Let_def split: option.splits)

lemma translateTask_target_sniff:
  "fst (translateTask env client settings sourceCode input nm (sniff input)) = sniff input"
  by (auto simp: translateTask_def sniff_def Let_def split: option.splits)

lemma translatePromises_target_sniff:
  "fst (translatePromises env client settings sourceCode input names (sniff input)) = sniff input"
proof (induction names)
  case Nil
  then show ?case by simp
next
  case (Cons nm names)
  have "fst (translateTask env client settings sourceCode input nm (sniff input)) = sniff input"
    by (rule translateTask_target_sniff)
  with Cons show ?case by (auto split: prod.splits)
qed

lemma translatePromises_target:
  "fst (translatePromises env client settings sourceCode input names t) = t \<or>
   fst (translatePromises env client settings sourceCode input names t) = sniff input"
proof (induction names arbitrary: t)
  case Nil
  then show ?case by simp
next
  case (Cons nm names)
  obtain t1 c1 p where task: "translateTask env client settings sourceCode input nm t = (t1, c1, p)"
    by (cases "translateTask env client settings sourceCode input nm t") auto
  have "t1 = t \<or> t1 = sniff input"
    using translateTask_target [of env client settings sourceCode "input" nm t] task by simp
  moreover have "fst (translatePromises env client settings sourceCode input (nm # names) t) =
      fst (translatePromises env client settings sourceCode input names t1)"
    using task by (simp split: prod.splits)
  ultimately show ?case
    using Cons [of t1] translatePromises_target_sniff [of env client settings sourceCode "input" names]
    by auto
qed

lemma sniff_not_auto: "sniff input \<noteq> js ''auto''"
  by (simp add: sniff_def js_def)

lemma translateTask_resolves:
  assumes "servicesData env nm = Some service"
    and "languagesMap service sourceCode = Some serviceSource"
    and "t = js ''auto'' \<or> languagesMap service t = None \<or> t = sniff input"
  shows "translateTask env client settings sourceCode input nm t =
     (sniff input,
      [\<lparr>calledService = nm, argText = input, argSource = serviceSource,
        argTarget = languagesMap service (sniff input), argClient = client,
        argSettings = settings\<rparr>],
      (case translate service input serviceSource (languagesMap service (sniff input))
              client settings of
         Fulfilled r \<Rightarrow> Fulfilled (Some (r, nm))
       | Rejected \<Rightarrow> Rejected
       | Pending \<Rightarrow> Pending))"
  using assms by (auto simp: translateTask_def sniff_def Let_def)

lemmas dispatch_eval = translateTask_def regExp_test_def Let_def

text \<open>What a registered service that supports the source code does to the dispatch when
  the shared target is \<^verbatim>\<open>auto\<close>, is a code the service lacks, or is the sniffed code
  already: the target is the sniffed code from there on, and the service is called
  with its own code for it.\<close>

lemma translatePromises_split:
  "translatePromises env client settings sourceCode input (pre @ nm # post) t =
     (case translatePromises env client settings sourceCode input pre t of
        (t1, c1, p1) \<Rightarrow>
          (case translateTask env client settings sourceCode input nm t1 of
             (t2, c2, p2) \<Rightarrow>
               (case translatePromises env client settings sourceCode input post t2 of
                  (t3, c3, p3) \<Rightarrow> (t3, c1 @ c2 @ c3, p1 @ p2 # p3))))"
  by (simp add: translatePromises_append split: prod.splits)

lemma calls_dispatch:
  "calls (dispatch env client settings names sourceCode t input) =
   fst (snd (translatePromises env client settings sourceCode input names t))"
  by (cases "translatePromises env client settings sourceCode input names t")
    (simp add: dispatch_def)

lemma translatePromises_after_resolving:
  assumes s: "servicesData env nm = Some service"
    and m: "languagesMap service sourceCode = Some serviceSource"
    and c: "fst (translatePromises env client settings sourceCode input pre t) = js ''auto'' \<or>
            languagesMap service (fst (translatePromises env client settings sourceCode input pre t)) = None \<or>
            fst (translatePromises env client settings sourceCode input pre t) = sniff input"
  shows "translatePromises env client settings sourceCode input (pre @ nm # post) t =
     (sniff input,
      fst (snd (translatePromises env client settings sourceCode input pre t))
        @ [\<lparr>calledService = nm, argText = input, argSource = serviceSource,
             argTarget = languagesMap service (sniff input), argClient = client,
             argSettings = settings\<rparr>]
        @ fst (snd (translatePromises env client settings sourceCode input post (sniff input))),
      snd (snd (translatePromises env client settings sourceCode input pre t))
        @ (case translate service input serviceSource (languagesMap service (sniff input))
                  client settings of
             Fulfilled r \<Rightarrow> Fulfilled (Some (r, nm))
           | Rejected \<Rightarrow> Rejected
           | Pending \<Rightarrow> Pending)
        # snd (snd (translatePromises env client settings sourceCode input post (sniff input))))"
proof -
  obtain t1 c1 p1 where pre: "translatePromises env client settings sourceCode input pre t = (t1, c1, p1)"
    by (cases "translatePromises env client settings sourceCode input pre t") auto
  obtain t3 c3 p3 where post: "translatePromises env client settings sourceCode input post (sniff input) = (t3, c3, p3)"
    by (cases "translatePromises env client settings sourceCode input post (sniff input)") auto
  have "fst (translatePromises env client settings sourceCode input post (sniff input)) = sniff input"
    by (rule translatePromises_target_sniff)
  with post have t3: "t3 = sniff input" by simp
  from c pre have "t1 = js ''auto'' \<or> languagesMap service t1 = None \<or> t1 = sniff input" by simp
  with s m have task: "translateTask env client settings sourceCode input nm t1 =
     (sniff input,
      [\<lparr>calledService = nm, argText = input, argSource = serviceSource,
        argTarget = languagesMap service (sniff input), argClient = client,
        argSettings = settings\<rparr>],
      (case translate service input serviceSource (languagesMap service (sniff input))
              client settings of
         Fulfilled r \<Rightarrow> Fulfilled (Some (r, nm))
       | Rejected \<Rightarrow> Rejected
       | Pending \<Rightarrow> Pending))"
    by (intro translateTask_resolves) auto
  show ?thesis
    by (simp add: translatePromises_split pre task post t3)
qed

lemmas wide_eval = wideEnv_def wideService_def

text \<open>
  \<^bold>\<open>C5\<close> (content sniffing), as amended. Take a dispatch with target code
  \<open>targetCode\<close> and a configured service that is registered and supports the source
  code. If \<open>targetCode\<close> is \<^verbatim>\<open>auto\<close> or the service does not support \<open>targetCode\<close>,
  then, whatever services \<open>pre\<close> and \<open>post\<close> stand before and after it in the list, the
  effective target of the service is \<^verbatim>\<open>en\<close> when the text holds a UTF-16 code unit in
  the range U+4E00..U+9FA5 of the expression of line 128, and \<^verbatim>\<open>zh\<close> otherwise: the
  dispatch calls \<^verbatim>\<open>translate\<close> of the service with the service's code for that target,
  between the calls of \<open>pre\<close> and those of \<open>post\<close>, and the shared variable holds that
  target after the callback of the service and at the end of the dispatch.
\<close>

theorem dispatch_sniffs_target:
  "servicesData env nm = Some service \<and>
   languagesMap service sourceCode = Some serviceSource \<and>
   (targetCode = js ''auto'' \<or> languagesMap service targetCode = None) \<longrightarrow>
     (\<forall>pre post.
        fst (translatePromises env client settings sourceCode input (pre @ [nm]) targetCode) =
          (if regExp_test input then js ''en'' else js ''zh'') \<and>
        calls (dispatch env client settings (pre @ nm # post) sourceCode targetCode input) =
          fst (snd (translatePromises env client settings sourceCode input pre targetCode))
          @ [\<lparr>calledService = nm, argText = input, argSource = serviceSource,
               argTarget = languagesMap service (if regExp_test input then js ''en'' else js ''zh''),
               argClient = client, argSettings = settings\<rparr>]
          @ fst (snd (translatePromises env client settings sourceCode input post
                        (if regExp_test input then js ''en'' else js ''zh''))) \<and>
        fst (translatePromises env client settings sourceCode input (pre @ nm # post) targetCode) =
          (if regExp_test input then js ''en'' else js ''zh'')) \<and>
     regExp_test input = (\<exists>c\<in>set input. 0x4E00 \<le> c \<and> c \<le> 0x9FA5)"
proof (intro impI conjI allI)
  assume h: "servicesData env nm = Some service \<and>
   languagesMap service sourceCode = Some serviceSource \<and>
   (targetCode = js ''auto'' \<or> languagesMap service targetCode = None)"
  fix pre post
  define cur where "cur = fst (translatePromises env client settings sourceCode input pre targetCode)"
  have "cur = targetCode \<or> cur = sniff input"
    unfolding cur_def by (rule translatePromises_target)
  with h have c: "cur = js ''auto'' \<or> languagesMap service cur = None \<or> cur = sniff input"
    by auto
  have run: "translatePromises env client settings sourceCode input (pre @ nm # ps) targetCode =
     (sniff input,
      fst (snd (translatePromises env client settings sourceCode input pre targetCode))
        @ [\<lparr>calledService = nm, argText = input, argSource = serviceSource,
             argTarget = languagesMap service (sniff input), argClient = client,
             argSettings = settings\<rparr>]
        @ fst (snd (translatePromises env client settings sourceCode input ps (sniff input))),
      snd (snd (translatePromises env client settings sourceCode input pre targetCode))
        @ (case translate service input serviceSource (languagesMap service (sniff input))
                  client settings of
             Fulfilled r \<Rightarrow> Fulfilled (Some (r, nm))
           | Rejected \<Rightarrow> Rejected
           | Pending \<Rightarrow> Pending)
        # snd (snd (translatePromises env client settings sourceCode input ps (sniff input))))"
    for ps
    using h c unfolding cur_def by (intro translatePromises_after_resolving) auto
  show "fst (translatePromises env client settings sourceCode input (pre @ [nm]) targetCode) =
          (if regExp_test input then js ''en'' else js ''zh'')"
    by (simp only: run [of "[]"] fst_conv) (simp add: sniff_def)
  show "calls (dispatch env client settings (pre @ nm # post) sourceCode targetCode input) =
          fst (snd (translatePromises env client settings sourceCode input pre targetCode))
          @ [\<lparr>calledService = nm, argText = input, argSource = serviceSource,
               argTarget = languagesMap service (if regExp_test input then js ''en'' else js ''zh''),
               argClient = client, argSettings = settings\<rparr>]
          @ fst (snd (translatePromises env client settings sourceCode input post
                        (if regExp_test input then js ''en'' else js ''zh'')))"
    by (simp only: calls_dispatch run [of post] fst_conv snd_conv) (simp add: sniff_def)
  show "fst (translatePromises env client settings sourceCode input (pre @ nm # post) targetCode) =
          (if regExp_test input then js ''en'' else js ''zh'')"
    by (simp only: run [of post] fst_conv) (simp add: sniff_def)
next
  show "regExp_test input = (\<exists>c\<in>set input. 0x4E00 \<le> c \<and> c \<le> 0x9FA5)"
    by (simp add: regExp_test_def list_ex_iff)
qed

theorem dispatch_sniffs_target_witness:
  "servicesData exampleEnv (js ''echo'') = Some echoService \<and>
   languagesMap echoService (js ''en'') = Some (js ''en'') \<and>
   languagesMap echoService (js ''ja'') = None \<and>
   \<not> regExp_test (js ''hello'') \<and>
   calls (dispatch exampleEnv () exampleSettings [js ''narrow'', js ''echo'', js ''down'']
            (js ''en'') (js ''ja'') (js ''hello'')) =
     [\<lparr>calledService = js ''echo'', argText = js ''hello'', argSource = js ''en'',
       argTarget = Some (js ''zh-CN''), argClient = (), argSettings = exampleSettings\<rparr>,
      \<lparr>calledService = js ''down'', argText = js ''hello'', argSource = js ''en'',
       argTarget = Some (js ''zh-CN''), argClient = (), argSettings = exampleSettings\<rparr>] \<and>
   fst (translatePromises exampleEnv () exampleSettings (js ''en'') (js ''hello'')
          [js ''narrow'', js ''echo'', js ''down''] (js ''ja'')) = js ''zh'' \<and>
   regExp_test (js ''hi '' @ [0x4F60, 0x597D]) \<and>
   calls (dispatch exampleEnv () exampleSettings [js ''echo'']
            (js ''en'') (js ''auto'') (js ''hi '' @ [0x4F60, 0x597D])) =
     [\<lparr>calledService = js ''echo'', argText = js ''hi '' @ [0x4F60, 0x597D],
       argSource = js ''en'', argTarget = Some (js ''en''), argClient = (),
       argSettings = exampleSettings\<rparr>] \<and>
   calls (query exampleEnv None (js ''hi '' @ [0x4F60, 0x597D]) exampleSettings) =
     [\<lparr>calledService = js ''echo'', argText = js ''hi '' @ [0x4F60, 0x597D],
       argSource = js ''auto'', argTarget = Some (js ''en''), argClient = (),
       argSettings = exampleSettings\<rparr>] \<and>
   response (query exampleEnv None (js ''hi '' @ [0x4F60, 0x597D]) exampleSettings) =
     Inr [\<lparr>title = js ''echo hi '' @ [0x4F60, 0x597D],
           subtitle = js ''Auto'' @ arrow @ js ''English  [Echo]'',
           icoPath = js ''assets/service_icon/echo.png'',
           jsonRPCAction = Some (Custom (js ''copy'') [js ''echo hi '' @ [0x4F60, 0x597D]])\<rparr>]"
proof -
  let ?cjk = "js ''hi '' @ [0x4F60, 0x597D]"
  have s: "servicesData exampleEnv (js ''echo'') = Some echoService"
    and m: "languagesMap echoService (js ''en'') = Some (js ''en'')"
    and ja: "languagesMap echoService (js ''ja'') = None"
    and zh: "languagesMap echoService (js ''zh'') = Some (js ''zh-CN'')"
    by (simp_all add: example_eval js_def)
  have r1: "\<not> regExp_test (js ''hello'')" by (simp add: regExp_test_def js_def)
  have r2: "regExp_test ?cjk" by (simp add: regExp_test_def js_def)
  have h1: "servicesData exampleEnv (js ''echo'') = Some echoService \<and>
     languagesMap echoService (js ''en'') = Some (js ''en'') \<and>
     (js ''ja'' = js ''auto'' \<or> languagesMap echoService (js ''ja'') = None)"
    using s m ja by simp
  have h2: "servicesData exampleEnv (js ''echo'') = Some echoService \<and>
     languagesMap echoService (js ''en'') = Some (js ''en'') \<and>
     (js ''auto'' = js ''auto'' \<or> languagesMap echoService (js ''auto'') = None)"
    using s m by simp
  note t1 = dispatch_sniffs_target [where env = exampleEnv and nm = "js ''echo''"
      and service = echoService and sourceCode = "js ''en''" and serviceSource = "js ''en''"
      and targetCode = "js ''ja''" and input = "js ''hello''" and client = "()"
      and settings = exampleSettings]
  note t2 = dispatch_sniffs_target [where env = exampleEnv and nm = "js ''echo''"
      and service = echoService and sourceCode = "js ''en''" and serviceSource = "js ''en''"
      and targetCode = "js ''auto''" and input = ?cjk and client = "()"
      and settings = exampleSettings]
  from t1 h1 have a: "\<forall>pre post.
        fst (translatePromises exampleEnv () exampleSettings (js ''en'') (js ''hello'')
               (pre @ [js ''echo'']) (js ''ja'')) =
          (if regExp_test (js ''hello'') then js ''en'' else js ''zh'') \<and>
        calls (dispatch exampleEnv () exampleSettings (pre @ js ''echo'' # post) (js ''en'')
                 (js ''ja'') (js ''hello'')) =
          fst (snd (translatePromises exampleEnv () exampleSettings (js ''en'') (js ''hello'')
                      pre (js ''ja'')))
          @ [\<lparr>calledService = js ''echo'', argText = js ''hello'', argSource = js ''en'',
               argTarget = languagesMap echoService
                 (if regExp_test (js ''hello'') then js ''en'' else js ''zh''),
               argClient = (), argSettings = exampleSettings\<rparr>]
          @ fst (snd (translatePromises exampleEnv () exampleSettings (js ''en'') (js ''hello'')
                        post (if regExp_test (js ''hello'') then js ''en'' else js ''zh''))) \<and>
        fst (translatePromises exampleEnv () exampleSettings (js ''en'') (js ''hello'')
               (pre @ js ''echo'' # post) (js ''ja'')) =
          (if regExp_test (js ''hello'') then js ''en'' else js ''zh'')"
    by blast
  have pre1: "fst (snd (translatePromises exampleEnv () exampleSettings (js ''en'') (js ''hello'')
                      [js ''narrow''] (js ''ja''))) = []"
    by (simp add: dispatch_eval example_eval js_def)
  have post1: "fst (snd (translatePromises exampleEnv () exampleSettings (js ''en'') (js ''hello'')
                      [js ''down''] (js ''zh''))) =
      [\<lparr>calledService = js ''down'', argText = js ''hello'', argSource = js ''en'',
        argTarget = Some (js ''zh-CN''), argClient = (), argSettings = exampleSettings\<rparr>]"
    by (simp add: dispatch_eval example_eval js_def)
  from a [rule_format, of "[js ''narrow'']" "[js ''down'']"] r1 zh pre1 post1
  have a': "calls (dispatch exampleEnv () exampleSettings [js ''narrow'', js ''echo'', js ''down'']
            (js ''en'') (js ''ja'') (js ''hello'')) =
     [\<lparr>calledService = js ''echo'', argText = js ''hello'', argSource = js ''en'',
       argTarget = Some (js ''zh-CN''), argClient = (), argSettings = exampleSettings\<rparr>,
      \<lparr>calledService = js ''down'', argText = js ''hello'', argSource = js ''en'',
       argTarget = Some (js ''zh-CN''), argClient = (), argSettings = exampleSettings\<rparr>]"
    and a'': "fst (translatePromises exampleEnv () exampleSettings (js ''en'') (js ''hello'')
          [js ''narrow'', js ''echo'', js ''down''] (js ''ja'')) = js ''zh''"
    by simp_all
  from t2 h2 have b: "\<forall>pre post.
        fst (translatePromises exampleEnv () exampleSettings (js ''en'') ?cjk
               (pre @ [js ''echo'']) (js ''auto'')) =
          (if regExp_test ?cjk then js ''en'' else js ''zh'') \<and>
        calls (dispatch exampleEnv () exampleSettings (pre @ js ''echo'' # post) (js ''en'')
                 (js ''auto'') ?cjk) =
          fst (snd (translatePromises exampleEnv () exampleSettings (js ''en'') ?cjk
                      pre (js ''auto'')))
          @ [\<lparr>calledService = js ''echo'', argText = ?cjk, argSource = js ''en'',
               argTarget = languagesMap echoService
                 (if regExp_test ?cjk then js ''en'' else js ''zh''),
               argClient = (), argSettings = exampleSettings\<rparr>]
          @ fst (snd (translatePromises exampleEnv () exampleSettings (js ''en'') ?cjk
                        post (if regExp_test ?cjk then js ''en'' else js ''zh''))) \<and>
        fst (translatePromises exampleEnv () exampleSettings (js ''en'') ?cjk
               (pre @ js ''echo'' # post) (js ''auto'')) =
          (if regExp_test ?cjk then js ''en'' else js ''zh'')"
    by blast
  from b [rule_format, of "[]" "[]"] r2 m
  have b': "calls (dispatch exampleEnv () exampleSettings [js ''echo'']
            (js ''en'') (js ''auto'') ?cjk) =
     [\<lparr>calledService = js ''echo'', argText = ?cjk,
       argSource = js ''en'', argTarget = Some (js ''en''), argClient = (),
       argSettings = exampleSettings\<rparr>]"
    by simp
  have q: "calls (query exampleEnv None ?cjk exampleSettings) =
     [\<lparr>calledService = js ''echo'', argText = ?cjk,
       argSource = js ''auto'', argTarget = Some (js ''en''), argClient = (),
       argSettings = exampleSettings\<rparr>]"
    by (simp add: handler_eval parse_eval str_eval example_eval message_eval)
  have q': "response (query exampleEnv None ?cjk exampleSettings) =
     Inr [\<lparr>title = js ''echo hi '' @ [0x4F60, 0x597D],
           subtitle = js ''Auto'' @ arrow @ js ''English  [Echo]'',
           icoPath = js ''assets/service_icon/echo.png'',
           jsonRPCAction = Some (Custom (js ''copy'') [js ''echo hi '' @ [0x4F60, 0x597D]])\<rparr>]"
    by (simp add: handler_eval parse_eval str_eval example_eval message_eval)
  show ?thesis by (intro conjI) (rule s m ja r1 a' a'' r2 b' q q')+
qed

text \<open>
  \<^bold>\<open>C5\<close> as worded fails on a text whose only ideograph is outside the range of the
  expression: U+9FA6 is a character of the block CJK Unified Ideographs, the target
  is \<^verbatim>\<open>auto\<close>, and the query calls the service with its code for \<^verbatim>\<open>zh\<close> and shows
  "Auto -> Chinese", where the claim resolves the target to \<^verbatim>\<open>en\<close>.
\<close>

theorem dispatch_sniffs_target_counterexample:
  "cjkUnifiedIdeograph 0x9FA6 \<and>
   spec_sniff [0x9FA6] = js ''en'' \<and>
   \<not> regExp_test [0x9FA6] \<and>
   targetLanguageCode exampleSettings = js ''auto'' \<and>
   calls (query exampleEnv None [0x9FA6] exampleSettings) =
     [\<lparr>calledService = js ''echo'', argText = [0x9FA6], argSource = js ''auto'',
       argTarget = Some (js ''zh-CN''), argClient = (), argSettings = exampleSettings\<rparr>] \<and>
   response (query exampleEnv None [0x9FA6] exampleSettings) =
     Inr [\<lparr>title = js ''echo '' @ [0x9FA6],
           subtitle = js ''Auto'' @ arrow @ js ''Chinese  [Echo]'',
           icoPath = js ''assets/service_icon/echo.png'',
           jsonRPCAction = Some (Custom (js ''copy'') [js ''echo '' @ [0x9FA6]])\<rparr>] \<and>
   fst (translatePromises exampleEnv () exampleSettings (js ''auto'') [0x9FA6] [js ''echo'']
          (js ''auto'')) = js ''zh'' \<and>
   fst (translatePromises exampleEnv () exampleSettings (js ''auto'') [0x9FA6] [js ''echo'']
          (js ''auto'')) \<noteq> spec_sniff [0x9FA6]"
  by (simp add: cjkUnifiedIdeograph_def spec_sniff_def handler_eval parse_eval str_eval
      example_eval message_eval)

text \<open>
  \<^bold>\<open>C6\<close> (the shared variable). Let a service \<open>nm\<close> be registered and support the
  source code, and let the variable, when the callback of \<open>nm\<close> runs after the
  services \<open>pre\<close>, be \<^verbatim>\<open>auto\<close> (or a code that \<open>nm\<close> lacks), so that \<open>nm\<close> triggers the
  auto-detection. Then every later service, whatever services \<open>mid\<close> stand between,
  finds the variable holding the sniffed code, \<^verbatim>\<open>en\<close> or \<^verbatim>\<open>zh\<close> and not \<^verbatim>\<open>auto\<close>: its
  callback is the one run on the sniffed code, and when it is registered and supports
  the source code the dispatch calls it with its code for the sniffed target, not with
  its code for the target the dispatch started with. The witness shows the difference
  on an explicit target: alone, the service \<^verbatim>\<open>wide\<close> is called with its code for \<^verbatim>\<open>ja\<close>;
  after \<^verbatim>\<open>echo\<close>, which lacks \<^verbatim>\<open>ja\<close>, it is called with its code for \<^verbatim>\<open>zh\<close>.
\<close>

theorem translatePromises_shared_target:
  "servicesData env nm = Some service \<and>
   languagesMap service sourceCode \<noteq> None \<and>
   (fst (translatePromises env client settings sourceCode input pre targetCode) = js ''auto'' \<or>
    languagesMap service
      (fst (translatePromises env client settings sourceCode input pre targetCode)) = None) \<longrightarrow>
     (\<forall>mid later post.
        fst (translatePromises env client settings sourceCode input (pre @ nm # mid) targetCode) =
          (if regExp_test input then js ''en'' else js ''zh'') \<and>
        translatePromises env client settings sourceCode input
            (pre @ nm # mid @ later # post) targetCode =
          (case translatePromises env client settings sourceCode input (pre @ nm # mid) targetCode of
             (t1, c1, p1) \<Rightarrow>
               (case translateTask env client settings sourceCode input later
                       (if regExp_test input then js ''en'' else js ''zh'') of
                  (t2, c2, p2) \<Rightarrow>
                    (case translatePromises env client settings sourceCode input post t2 of
                       (t3, c3, p3) \<Rightarrow> (t3, c1 @ c2 @ c3, p1 @ p2 # p3)))) \<and>
        (\<forall>laterService laterSource.
           servicesData env later = Some laterService \<and>
           languagesMap laterService sourceCode = Some laterSource \<longrightarrow>
           calls (dispatch env client settings (pre @ nm # mid @ later # post) sourceCode
                    targetCode input) =
             fst (snd (translatePromises env client settings sourceCode input
                         (pre @ nm # mid) targetCode))
             @ [\<lparr>calledService = later, argText = input, argSource = laterSource,
                  argTarget = languagesMap laterService
                    (if regExp_test input then js ''en'' else js ''zh''),
                  argClient = client, argSettings = settings\<rparr>]
             @ fst (snd (translatePromises env client settings sourceCode input post
                           (if regExp_test input then js ''en'' else js ''zh''))))) \<and>
     (if regExp_test input then js ''en'' else js ''zh'') \<noteq> js ''auto''"
proof (intro impI conjI allI)
  assume h: "servicesData env nm = Some service \<and>
   languagesMap service sourceCode \<noteq> None \<and>
   (fst (translatePromises env client settings sourceCode input pre targetCode) = js ''auto'' \<or>
    languagesMap service
      (fst (translatePromises env client settings sourceCode input pre targetCode)) = None)"
  then obtain serviceSource where ss: "languagesMap service sourceCode = Some serviceSource"
    by auto
  fix mid later post
  have run: "translatePromises env client settings sourceCode input (pre @ nm # mid) targetCode =
     (sniff input,
      fst (snd (translatePromises env client settings sourceCode input pre targetCode))
        @ [\<lparr>calledService = nm, argText = input, argSource = serviceSource,
             argTarget = languagesMap service (sniff input), argClient = client,
             argSettings = settings\<rparr>]
        @ fst (snd (translatePromises env client settings sourceCode input mid (sniff input))),
      snd (snd (translatePromises env client settings sourceCode input pre targetCode))
        @ (case translate service input serviceSource (languagesMap service (sniff input))
                  client settings of
             Fulfilled r \<Rightarrow> Fulfilled (Some (r, nm))
           | Rejected \<Rightarrow> Rejected
           | Pending \<Rightarrow> Pending)
        # snd (snd (translatePromises env client settings sourceCode input mid (sniff input))))"
    using h ss by (intro translatePromises_after_resolving) auto
  then have seen: "fst (translatePromises env client settings sourceCode input (pre @ nm # mid)
                          targetCode) = sniff input"
    by simp
  then show "fst (translatePromises env client settings sourceCode input (pre @ nm # mid) targetCode) =
          (if regExp_test input then js ''en'' else js ''zh'')"
    by (simp add: sniff_def)
  have "pre @ nm # mid @ later # post = (pre @ nm # mid) @ later # post" by simp
  then have "translatePromises env client settings sourceCode input
            (pre @ nm # mid @ later # post) targetCode =
       (case translatePromises env client settings sourceCode input (pre @ nm # mid) targetCode of
        (t1, c1, p1) \<Rightarrow>
          (case translateTask env client settings sourceCode input later t1 of
             (t2, c2, p2) \<Rightarrow>
               (case translatePromises env client settings sourceCode input post t2 of
                  (t3, c3, p3) \<Rightarrow> (t3, c1 @ c2 @ c3, p1 @ p2 # p3))))"
    by (simp only: translatePromises_split)
  with seen show "translatePromises env client settings sourceCode input
            (pre @ nm # mid @ later # post) targetCode =
          (case translatePromises env client settings sourceCode input (pre @ nm # mid) targetCode of
             (t1, c1, p1) \<Rightarrow>
               (case translateTask env client settings sourceCode input later
                       (if regExp_test input then js ''en'' else js ''zh'') of
                  (t2, c2, p2) \<Rightarrow>
                    (case translatePromises env client settings sourceCode input post t2 of
                       (t3, c3, p3) \<Rightarrow> (t3, c1 @ c2 @ c3, p1 @ p2 # p3))))"
    by (auto simp: sniff_def split: prod.splits)
  fix laterService laterSource
  assume l: "servicesData env later = Some laterService \<and>
           languagesMap laterService sourceCode = Some laterSource"
  have "translatePromises env client settings sourceCode input
            ((pre @ nm # mid) @ later # post) targetCode =
     (sniff input,
      fst (snd (translatePromises env client settings sourceCode input (pre @ nm # mid) targetCode))
        @ [\<lparr>calledService = later, argText = input, argSource = laterSource,
             argTarget = languagesMap laterService (sniff input), argClient = client,
             argSettings = settings\<rparr>]
        @ fst (snd (translatePromises env client settings sourceCode input post (sniff input))),
      snd (snd (translatePromises env client settings sourceCode input (pre @ nm # mid) targetCode))
        @ (case translate laterService input laterSource (languagesMap laterService (sniff input))
                  client settings of
             Fulfilled r \<Rightarrow> Fulfilled (Some (r, later))
           | Rejected \<Rightarrow> Rejected
           | Pending \<Rightarrow> Pending)
        # snd (snd (translatePromises env client settings sourceCode input post (sniff input))))"
    using l seen by (intro translatePromises_after_resolving) auto
  then have "fst (snd (translatePromises env client settings sourceCode input
            (pre @ nm # mid @ later # post) targetCode)) =
      fst (snd (translatePromises env client settings sourceCode input (pre @ nm # mid) targetCode))
        @ [\<lparr>calledService = later, argText = input, argSource = laterSource,
             argTarget = languagesMap laterService (sniff input), argClient = client,
             argSettings = settings\<rparr>]
        @ fst (snd (translatePromises env client settings sourceCode input post (sniff input)))"
    by simp
  then show "calls (dispatch env client settings (pre @ nm # mid @ later # post) sourceCode
                    targetCode input) =
             fst (snd (translatePromises env client settings sourceCode input
                         (pre @ nm # mid) targetCode))
             @ [\<lparr>calledService = later, argText = input, argSource = laterSource,
                  argTarget = languagesMap laterService
                    (if regExp_test input then js ''en'' else js ''zh''),
                  argClient = client, argSettings = settings\<rparr>]
             @ fst (snd (translatePromises env client settings sourceCode input post
                           (if regExp_test input then js ''en'' else js ''zh'')))"
    by (simp only: calls_dispatch) (simp add: sniff_def)
next
  show "(if regExp_test input then js ''en'' else js ''zh'') \<noteq> js ''auto''"
    using sniff_not_auto [of "input"] by (simp add: sniff_def)
qed

theorem translatePromises_shared_target_witness:
  "servicesData wideEnv (js ''echo'') = Some echoService \<and>
   languagesMap echoService (js ''en'') \<noteq> None \<and>
   languagesMap echoService (js ''ja'') = None \<and>
   servicesData wideEnv (js ''wide'') = Some wideService \<and>
   languagesMap wideService (js ''ja'') = Some (js ''jpn'') \<and>
   calls (dispatch wideEnv () exampleSettings [js ''wide''] (js ''en'') (js ''ja'') (js ''hello'')) =
     [\<lparr>calledService = js ''wide'', argText = js ''hello'', argSource = js ''eng'',
       argTarget = Some (js ''jpn''), argClient = (), argSettings = exampleSettings\<rparr>] \<and>
   calls (dispatch wideEnv () exampleSettings [js ''echo'', js ''wide''] (js ''en'') (js ''ja'')
            (js ''hello'')) =
     [\<lparr>calledService = js ''echo'', argText = js ''hello'', argSource = js ''en'',
       argTarget = Some (js ''zh-CN''), argClient = (), argSettings = exampleSettings\<rparr>,
      \<lparr>calledService = js ''wide'', argText = js ''hello'', argSource = js ''eng'',
       argTarget = Some (js ''zho''), argClient = (), argSettings = exampleSettings\<rparr>] \<and>
   response (query wideEnv None (js ''en>ja hello'')
               (exampleSettings\<lparr>services := Some [js ''echo'', js ''wide'']\<rparr>)) =
     Inr [\<lparr>title = js ''echo hello'',
           subtitle = js ''English'' @ arrow @ js ''Chinese  [Echo]'',
           icoPath = js ''assets/service_icon/echo.png'',
           jsonRPCAction = Some (Custom (js ''copy'') [js ''echo hello''])\<rparr>,
          \<lparr>title = js ''wide hello'',
           subtitle = js ''English'' @ arrow @ js ''Chinese  [Wide]'',
           icoPath = js ''assets/service_icon/wide.png'',
           jsonRPCAction = Some (Custom (js ''copy'') [js ''wide hello''])\<rparr>] \<and>
   fst (translatePromises exampleEnv () exampleSettings (js ''en'') (js ''hello'')
          [js ''missing''] (js ''auto'')) = js ''auto'' \<and>
   fst (translatePromises exampleEnv () exampleSettings (js ''en'') (js ''hello'')
          [js ''missing'', js ''echo'', js ''narrow''] (js ''auto'')) = js ''zh'' \<and>
   calls (dispatch exampleEnv () exampleSettings
            [js ''missing'', js ''echo'', js ''narrow'', js ''down''] (js ''en'') (js ''auto'')
            (js ''hello'')) =
     [\<lparr>calledService = js ''echo'', argText = js ''hello'', argSource = js ''en'',
       argTarget = Some (js ''zh-CN''), argClient = (), argSettings = exampleSettings\<rparr>,
      \<lparr>calledService = js ''down'', argText = js ''hello'', argSource = js ''en'',
       argTarget = Some (js ''zh-CN''), argClient = (), argSettings = exampleSettings\<rparr>]"
proof -
  have e: "servicesData wideEnv (js ''echo'') = Some echoService"
    and en: "languagesMap echoService (js ''en'') \<noteq> None"
    and ja: "languagesMap echoService (js ''ja'') = None"
    and w: "servicesData wideEnv (js ''wide'') = Some wideService"
    and wja: "languagesMap wideService (js ''ja'') = Some (js ''jpn'')"
    and wen: "languagesMap wideService (js ''en'') = Some (js ''eng'')"
    and wzh: "languagesMap wideService (js ''zh'') = Some (js ''zho'')"
    and e': "servicesData exampleEnv (js ''echo'') = Some echoService"
    and d: "servicesData exampleEnv (js ''down'') = Some downService"
    and den: "languagesMap downService (js ''en'') = Some (js ''en'')"
    and dzh: "languagesMap downService (js ''zh'') = Some (js ''zh-CN'')"
    by (simp_all add: wide_eval example_eval js_def)
  have r: "\<not> regExp_test (js ''hello'')" by (simp add: regExp_test_def js_def)
  have alone: "calls (dispatch wideEnv () exampleSettings [js ''wide''] (js ''en'') (js ''ja'')
                        (js ''hello'')) =
     [\<lparr>calledService = js ''wide'', argText = js ''hello'', argSource = js ''eng'',
       argTarget = Some (js ''jpn''), argClient = (), argSettings = exampleSettings\<rparr>]"
    by (simp add: dispatch_def dispatch_eval wide_eval example_eval js_def)
  have h1: "servicesData wideEnv (js ''echo'') = Some echoService \<and>
     languagesMap echoService (js ''en'') \<noteq> None \<and>
     (fst (translatePromises wideEnv () exampleSettings (js ''en'') (js ''hello'') [] (js ''ja'')) =
        js ''auto'' \<or>
      languagesMap echoService
        (fst (translatePromises wideEnv () exampleSettings (js ''en'') (js ''hello'') []
                (js ''ja''))) = None)"
    using e en ja by simp
  note t1 = translatePromises_shared_target [where env = wideEnv and client = "()"
      and settings = exampleSettings and sourceCode = "js ''en''" and input = "js ''hello''"
      and pre = "[]" and targetCode = "js ''ja''" and nm = "js ''echo''"
      and service = echoService]
  from t1 h1 have a: "\<forall>mid later post. \<forall>laterService laterSource.
           servicesData wideEnv later = Some laterService \<and>
           languagesMap laterService (js ''en'') = Some laterSource \<longrightarrow>
           calls (dispatch wideEnv () exampleSettings ([] @ js ''echo'' # mid @ later # post)
                    (js ''en'') (js ''ja'') (js ''hello'')) =
             fst (snd (translatePromises wideEnv () exampleSettings (js ''en'') (js ''hello'')
                         ([] @ js ''echo'' # mid) (js ''ja'')))
             @ [\<lparr>calledService = later, argText = js ''hello'', argSource = laterSource,
                  argTarget = languagesMap laterService
                    (if regExp_test (js ''hello'') then js ''en'' else js ''zh''),
                  argClient = (), argSettings = exampleSettings\<rparr>]
             @ fst (snd (translatePromises wideEnv () exampleSettings (js ''en'') (js ''hello'')
                           post (if regExp_test (js ''hello'') then js ''en'' else js ''zh'')))"
    by blast
  have c1: "fst (snd (translatePromises wideEnv () exampleSettings (js ''en'') (js ''hello'')
                         [js ''echo''] (js ''ja''))) =
      [\<lparr>calledService = js ''echo'', argText = js ''hello'', argSource = js ''en'',
        argTarget = Some (js ''zh-CN''), argClient = (), argSettings = exampleSettings\<rparr>]"
    by (simp add: dispatch_eval wide_eval example_eval js_def)
  from a [rule_format, where mid = "[]" and later = "js ''wide''" and post = "[]"
      and laterService = wideService and laterSource = "js ''eng''"] w wen wzh r c1
  have shared: "calls (dispatch wideEnv () exampleSettings [js ''echo'', js ''wide''] (js ''en'')
                         (js ''ja'') (js ''hello'')) =
     [\<lparr>calledService = js ''echo'', argText = js ''hello'', argSource = js ''en'',
       argTarget = Some (js ''zh-CN''), argClient = (), argSettings = exampleSettings\<rparr>,
      \<lparr>calledService = js ''wide'', argText = js ''hello'', argSource = js ''eng'',
       argTarget = Some (js ''zho''), argClient = (), argSettings = exampleSettings\<rparr>]"
    by simp
  have q: "response (query wideEnv None (js ''en>ja hello'')
               (exampleSettings\<lparr>services := Some [js ''echo'', js ''wide'']\<rparr>)) =
     Inr [\<lparr>title = js ''echo hello'',
           subtitle = js ''English'' @ arrow @ js ''Chinese  [Echo]'',
           icoPath = js ''assets/service_icon/echo.png'',
           jsonRPCAction = Some (Custom (js ''copy'') [js ''echo hello''])\<rparr>,
          \<lparr>title = js ''wide hello'',
           subtitle = js ''English'' @ arrow @ js ''Chinese  [Wide]'',
           icoPath = js ''assets/service_icon/wide.png'',
           jsonRPCAction = Some (Custom (js ''copy'') [js ''wide hello''])\<rparr>]"
    by (simp add: handler_eval parse_eval str_eval wide_eval example_eval message_eval)
  have h2: "servicesData exampleEnv (js ''echo'') = Some echoService \<and>
     languagesMap echoService (js ''en'') \<noteq> None \<and>
     (fst (translatePromises exampleEnv () exampleSettings (js ''en'') (js ''hello'')
             [js ''missing''] (js ''auto'')) = js ''auto'' \<or>
      languagesMap echoService
        (fst (translatePromises exampleEnv () exampleSettings (js ''en'') (js ''hello'')
                [js ''missing''] (js ''auto''))) = None)"
    using e' en by (simp add: dispatch_eval example_eval js_def)
  have au: "fst (translatePromises exampleEnv () exampleSettings (js ''en'') (js ''hello'')
          [js ''missing''] (js ''auto'')) = js ''auto''"
    by (simp add: dispatch_eval example_eval js_def)
  note t2 = translatePromises_shared_target [where env = exampleEnv and client = "()"
      and settings = exampleSettings and sourceCode = "js ''en''" and input = "js ''hello''"
      and pre = "[js ''missing'']" and targetCode = "js ''auto''" and nm = "js ''echo''"
      and service = echoService]
  from t2 h2 have b: "\<forall>mid later post.
        fst (translatePromises exampleEnv () exampleSettings (js ''en'') (js ''hello'')
               ([js ''missing''] @ js ''echo'' # mid) (js ''auto'')) =
          (if regExp_test (js ''hello'') then js ''en'' else js ''zh'') \<and>
        (\<forall>laterService laterSource.
           servicesData exampleEnv later = Some laterService \<and>
           languagesMap laterService (js ''en'') = Some laterSource \<longrightarrow>
           calls (dispatch exampleEnv () exampleSettings
                    ([js ''missing''] @ js ''echo'' # mid @ later # post)
                    (js ''en'') (js ''auto'') (js ''hello'')) =
             fst (snd (translatePromises exampleEnv () exampleSettings (js ''en'') (js ''hello'')
                         ([js ''missing''] @ js ''echo'' # mid) (js ''auto'')))
             @ [\<lparr>calledService = later, argText = js ''hello'', argSource = laterSource,
                  argTarget = languagesMap laterService
                    (if regExp_test (js ''hello'') then js ''en'' else js ''zh''),
                  argClient = (), argSettings = exampleSettings\<rparr>]
             @ fst (snd (translatePromises exampleEnv () exampleSettings (js ''en'') (js ''hello'')
                           post (if regExp_test (js ''hello'') then js ''en'' else js ''zh''))))"
    by blast
  from b [rule_format, where mid = "[js ''narrow'']" and later = "js ''down''" and post = "[]",
      THEN conjunct1] r
  have seen: "fst (translatePromises exampleEnv () exampleSettings (js ''en'') (js ''hello'')
          [js ''missing'', js ''echo'', js ''narrow''] (js ''auto'')) = js ''zh''"
    by simp
  have c2: "fst (snd (translatePromises exampleEnv () exampleSettings (js ''en'') (js ''hello'')
                         [js ''missing'', js ''echo'', js ''narrow''] (js ''auto''))) =
      [\<lparr>calledService = js ''echo'', argText = js ''hello'', argSource = js ''en'',
        argTarget = Some (js ''zh-CN''), argClient = (), argSettings = exampleSettings\<rparr>]"
    by (simp add: dispatch_eval example_eval js_def)
  from b [rule_format, where mid = "[js ''narrow'']" and later = "js ''down''" and post = "[]",
      THEN conjunct2, rule_format, where laterService = downService and laterSource = "js ''en''"]
    d den dzh r c2
  have later: "calls (dispatch exampleEnv () exampleSettings
            [js ''missing'', js ''echo'', js ''narrow'', js ''down''] (js ''en'') (js ''auto'')
            (js ''hello'')) =
     [\<lparr>calledService = js ''echo'', argText = js ''hello'', argSource = js ''en'',
       argTarget = Some (js ''zh-CN''), argClient = (), argSettings = exampleSettings\<rparr>,
      \<lparr>calledService = js ''down'', argText = js ''hello'', argSource = js ''en'',
       argTarget = Some (js ''zh-CN''), argClient = (), argSettings = exampleSettings\<rparr>]"
    by simp
  show ?thesis by (intro conjI) (rule e en ja w wja alone shared q au seen later)+
qed



section \<open>The quick-select list\<close>

lemma collect_map_Inr: "collect (map Inr vs) = Inr vs"
  by (induction vs) auto

lemma collect_Inr_D: "collect xs = Inr vs \<Longrightarrow> xs = map Inr vs"
  by (induction xs arbitrary: vs) (auto split: sum.splits)

lemma map_all_Inr:
  "(\<And>x. x \<in> set xs \<Longrightarrow> \<exists>v. f x = Inr v) \<Longrightarrow> \<exists>vs. map f xs = map Inr vs"
proof (induction xs)
  case Nil
  then show ?case by simp
next
  case (Cons x xs)
  then obtain v where v: "f x = Inr v" by auto
  from Cons obtain vs where "map f xs = map Inr vs" by auto
  with v have "map f (x # xs) = map Inr (v # vs)" by simp
  then show ?case by blast
qed

lemma quickSelectItem_valid:
  assumes "validPair env pair"
    and "\<forall>c\<in>set (languageCodesArr env). languageNamesMap env c \<noteq> None"
  shows "\<exists>i. quickSelectItem env settings pair = Inr i \<and>
             jsonRPCAction i =
               Some (ChangeQuery (triggerKeyword settings @ js '' '' @ pair @ js '' '') True)"
proof -
  obtain source target where pc: "pairCodes pair = (source, target)" by (cases "pairCodes pair")
  with assms(1) obtain s t where st: "source = Some s" "target = Some t"
    "s \<in> set (languageCodesArr env)" "t \<in> set (languageCodesArr env)"
    by (auto simp: validPair_def arr_includes_def split: option.splits)
  from assms(2) st(3) have "languageNamesMap env s \<noteq> None" by blast
  moreover from assms(2) st(4) have "languageNamesMap env t \<noteq> None" by blast
  ultimately obtain sn tn where "languageNamesMap env s = Some sn" "languageNamesMap env t = Some tn"
    by auto
  with pc st show ?thesis
    by (simp add: quickSelectItem_def languageName_def to_string_def)
qed

text \<open>
  \<^bold>\<open>C8\<close> (quick-select list). When the handler builds the quick-select list (the
  preconditions pass, pairs are configured and the prompt is blank), the first item is
  the "default selected" item of the settings' source and target codes, whatever the
  configured pairs are. The items after it are those of exactly the configured pairs
  that \<open>validPair\<close> accepts (both codes, split at \<^verbatim>\<open>>\<close> and trimmed, are in
  \<^verbatim>\<open>languageCodesArr\<close>), in the configured order: the change-query actions of the
  items name these pairs one by one. The language table is taken to have a name for
  every code of \<^verbatim>\<open>languageCodesArr\<close>; without one, line 91 throws.
\<close>

theorem quickSelectList_order:
  "services settings = Some names \<and> names \<noteq> [] \<and>
   languageNamesMap env (sourceLanguageCode settings) = Some sourceNames \<and>
   languageNamesMap env (targetLanguageCode settings) = Some targetNames \<and>
   languagePairs settings = Some pairs \<and> pairs \<noteq> [] \<and> trim prompt = [] \<and>
   (\<forall>c\<in>set (languageCodesArr env). languageNamesMap env c \<noteq> None) \<longrightarrow>
     (\<exists>rest.
        response (query env ax prompt settings) =
          Inr (\<lparr>title = sourceNames (interfaceLanguage settings) @ arrow
                         @ targetNames (interfaceLanguage settings),
                 subtitle = defaultSelected (interfaceLanguage settings) @ js '' ''
                         @ sourceLanguageCode settings @ arrow @ targetLanguageCode settings,
                 icoPath = assetsPath env @ js ''/info.png'',
                 jsonRPCAction = None\<rparr> # rest) \<and>
        map Inr rest = map (quickSelectItem env settings) (filter (validPair env) pairs) \<and>
        map jsonRPCAction rest =
          map (\<lambda>pair. Some (ChangeQuery (triggerKeyword settings @ js '' '' @ pair @ js '' '') True))
            (filter (validPair env) pairs))"
proof
  assume h: "services settings = Some names \<and> names \<noteq> [] \<and>
   languageNamesMap env (sourceLanguageCode settings) = Some sourceNames \<and>
   languageNamesMap env (targetLanguageCode settings) = Some targetNames \<and>
   languagePairs settings = Some pairs \<and> pairs \<noteq> [] \<and> trim prompt = [] \<and>
   (\<forall>c\<in>set (languageCodesArr env). languageNamesMap env c \<noteq> None)"
  let ?valid = "filter (validPair env) pairs"
  let ?d = "\<lparr>title = sourceNames (interfaceLanguage settings) @ arrow
                         @ targetNames (interfaceLanguage settings),
                 subtitle = defaultSelected (interfaceLanguage settings) @ js '' ''
                         @ sourceLanguageCode settings @ arrow @ targetLanguageCode settings,
                 icoPath = assetsPath env @ js ''/info.png'',
                 jsonRPCAction = None\<rparr>"
  from h have q: "response (query env ax prompt settings) = quickSelectList env settings pairs"
    by (auto simp: query_def Let_def)
  from h have d: "defaultSelectedItem env (interfaceLanguage settings) (sourceLanguageCode settings)
           (targetLanguageCode settings) = Inr ?d"
    by (simp add: defaultSelectedItem_def languageName_def)
  have ex: "\<exists>v. quickSelectItem env settings pair = Inr v" if "pair \<in> set ?valid" for pair
    using that h quickSelectItem_valid [of env pair settings] by auto
  then obtain rest where rest: "map (quickSelectItem env settings) ?valid = map Inr rest"
    using map_all_Inr [of ?valid "quickSelectItem env settings"] by blast
  have act: "map jsonRPCAction rest =
          map (\<lambda>pair. Some (ChangeQuery (triggerKeyword settings @ js '' '' @ pair @ js '' '') True))
            ?valid"
  proof (rule nth_equalityI)
    from rest have "length (map (quickSelectItem env settings) ?valid) = length (map Inr rest)"
      by simp
    then show "length (map jsonRPCAction rest) =
      length (map (\<lambda>pair. Some (ChangeQuery (triggerKeyword settings @ js '' '' @ pair @ js '' '') True)) ?valid)"
      by simp
  next
    fix i
    assume "i < length (map jsonRPCAction rest)"
    then have i: "i < length rest" by simp
    from rest have len: "length ?valid = length rest"
      by (metis length_map)
    with i have iv: "i < length ?valid" by simp
    then have "?valid ! i \<in> set ?valid" by (rule nth_mem)
    then have vp: "validPair env (?valid ! i)" by simp
    from rest i iv have "quickSelectItem env settings (?valid ! i) = Inr (rest ! i)"
      by (metis nth_map)
    with quickSelectItem_valid [of env "?valid ! i" settings] vp h
    have "jsonRPCAction (rest ! i) =
        Some (ChangeQuery (triggerKeyword settings @ js '' '' @ (?valid ! i) @ js '' '') True)"
      by auto
    with i iv show "map jsonRPCAction rest ! i =
      map (\<lambda>pair. Some (ChangeQuery (triggerKeyword settings @ js '' '' @ pair @ js '' '') True)) ?valid ! i"
      by simp
  qed
  have "quickSelectList env settings pairs = Inr (?d # rest)"
    by (simp add: quickSelectList_def d rest collect_map_Inr)
  with q rest act show "\<exists>rest.
        response (query env ax prompt settings) = Inr (?d # rest) \<and>
        map Inr rest = map (quickSelectItem env settings) (filter (validPair env) pairs) \<and>
        map jsonRPCAction rest =
          map (\<lambda>pair. Some (ChangeQuery (triggerKeyword settings @ js '' '' @ pair @ js '' '') True))
            (filter (validPair env) pairs)"
    by auto
qed

theorem quickSelectList_order_witness:
  "services exampleSettings = Some [js ''echo''] \<and>
   languagePairs exampleSettings = Some [js ''zh>en'', js ''xx>en'', js ''en > ja''] \<and>
   trim (js ''  '') = [] \<and>
   filter (validPair exampleEnv) [js ''zh>en'', js ''xx>en'', js ''en > ja''] =
     [js ''zh>en'', js ''en > ja''] \<and>
   (\<exists>rest.
      response (query exampleEnv None (js ''  '') exampleSettings) =
        Inr (\<lparr>title = js ''Auto'' @ arrow @ js ''Auto'',
               subtitle = js ''Default selected:  auto'' @ arrow @ js ''auto'',
               icoPath = js ''assets/info.png'', jsonRPCAction = None\<rparr> # rest) \<and>
      map jsonRPCAction rest =
        [Some (ChangeQuery (js ''tr zh>en '') True),
         Some (ChangeQuery (js ''tr en > ja '') True)])"
proof -
  let ?pairs = "[js ''zh>en'', js ''xx>en'', js ''en > ja'']"
  let ?auto = "localized (js ''Auto'') (js ''Otomatik'') (js ''Auto'')"
  have h: "services exampleSettings = Some [js ''echo''] \<and> [js ''echo''] \<noteq> [] \<and>
     languageNamesMap exampleEnv (sourceLanguageCode exampleSettings) = Some ?auto \<and>
     languageNamesMap exampleEnv (targetLanguageCode exampleSettings) = Some ?auto \<and>
     languagePairs exampleSettings = Some ?pairs \<and> ?pairs \<noteq> [] \<and> trim (js ''  '') = [] \<and>
     (\<forall>c\<in>set (languageCodesArr exampleEnv). languageNamesMap exampleEnv c \<noteq> None)"
    by (simp add: example_eval str_eval)
  have v: "filter (validPair exampleEnv) ?pairs = [js ''zh>en'', js ''en > ja'']"
    by (simp add: validPair_def pairCodes_def arr_includes_def example_eval str_eval)
  from quickSelectList_order [where settings = exampleSettings and env = exampleEnv
      and names = "[js ''echo'']" and sourceNames = ?auto and targetNames = ?auto
      and pairs = ?pairs and prompt = "js ''  ''" and ax = None] h
  obtain rest where
    r: "response (query exampleEnv None (js ''  '') exampleSettings) =
          Inr (\<lparr>title = ?auto (interfaceLanguage exampleSettings) @ arrow
                         @ ?auto (interfaceLanguage exampleSettings),
                 subtitle = defaultSelected (interfaceLanguage exampleSettings) @ js '' ''
                         @ sourceLanguageCode exampleSettings @ arrow
                         @ targetLanguageCode exampleSettings,
                 icoPath = assetsPath exampleEnv @ js ''/info.png'',
                 jsonRPCAction = None\<rparr> # rest)"
    and a: "map jsonRPCAction rest =
          map (\<lambda>pair. Some (ChangeQuery (triggerKeyword exampleSettings @ js '' '' @ pair @ js '' '') True))
            (filter (validPair exampleEnv) ?pairs)"
    by blast
  from r have r': "response (query exampleEnv None (js ''  '') exampleSettings) =
        Inr (\<lparr>title = js ''Auto'' @ arrow @ js ''Auto'',
               subtitle = js ''Default selected:  auto'' @ arrow @ js ''auto'',
               icoPath = js ''assets/info.png'', jsonRPCAction = None\<rparr> # rest)"
    by (simp add: example_eval message_eval js_def)
  from a have a': "map jsonRPCAction rest =
        [Some (ChangeQuery (js ''tr zh>en '') True),
         Some (ChangeQuery (js ''tr en > ja '') True)]"
    unfolding v by (simp add: example_eval js_def)
  have e: "\<exists>rest.
      response (query exampleEnv None (js ''  '') exampleSettings) =
        Inr (\<lparr>title = js ''Auto'' @ arrow @ js ''Auto'',
               subtitle = js ''Default selected:  auto'' @ arrow @ js ''auto'',
               icoPath = js ''assets/info.png'', jsonRPCAction = None\<rparr> # rest) \<and>
      map jsonRPCAction rest =
        [Some (ChangeQuery (js ''tr zh>en '') True),
         Some (ChangeQuery (js ''tr en > ja '') True)]"
    by (intro exI [of _ rest] conjI) (rule r' a')+
  have c1: "services exampleSettings = Some [js ''echo'']" by (simp add: example_eval)
  have c2: "languagePairs exampleSettings = Some ?pairs" by (simp add: example_eval)
  have c3: "trim (js ''  '') = []" by (simp add: str_eval)
  show ?thesis by (intro conjI) (rule c1 c2 c3 v e)+
qed

section \<open>Isolation of the services\<close>

lemma promise_all_insert:
  "promise_all (p1 @ Fulfilled x # p2) =
     (case promise_all (p1 @ p2) of
        Fulfilled rs \<Rightarrow> Fulfilled (take (length p1) rs @ x # drop (length p1) rs)
      | Rejected \<Rightarrow> Rejected
      | Pending \<Rightarrow> Pending)"
proof (induction p1)
  case Nil
  then show ?case by (simp split: promise.splits)
next
  case (Cons p p1)
  then show ?case by (cases p) (auto split: promise.splits)
qed

lemma promise_all_Rejected: "Rejected \<in> set ps \<Longrightarrow> promise_all ps = Rejected"
  by (induction ps) (auto split: promise.splits)

lemma promise_all_Fulfilled_D: "promise_all ps = Fulfilled rs \<Longrightarrow> ps = map Fulfilled rs"
  by (induction ps arbitrary: rs) (auto split: promise.splits)

lemma translatePromises_length:
  "length (snd (snd (translatePromises env client settings sourceCode input names t))) = length names"
proof (induction names arbitrary: t)
  case Nil
  then show ?case by simp
next
  case (Cons nm names)
  obtain t1 c1 p where task: "translateTask env client settings sourceCode input nm t = (t1, c1, p)"
    by (cases "translateTask env client settings sourceCode input nm t") auto
  obtain t2 c2 ps where run: "translatePromises env client settings sourceCode input names t1 = (t2, c2, ps)"
    by (cases "translatePromises env client settings sourceCode input names t1") auto
  from Cons [of t1] run have "length ps = length names" by simp
  with task run show ?case by simp
qed

lemma translateTask_registered:
  "snd (snd (translateTask env client settings sourceCode input nm t)) = Fulfilled r \<Longrightarrow>
   (r \<noteq> None) = (servicesData env nm \<noteq> None)"
  by (auto simp: translateTask_def Let_def split: option.splits promise.splits)

lemma translatePromises_registered:
  "snd (snd (translatePromises env client settings sourceCode input names t)) = map Fulfilled rs \<Longrightarrow>
   map (\<lambda>r. r \<noteq> None) rs = map (\<lambda>n. servicesData env n \<noteq> None) names"
proof (induction names arbitrary: t rs)
  case Nil
  then show ?case by simp
next
  case (Cons nm names)
  obtain t1 c1 p where task: "translateTask env client settings sourceCode input nm t = (t1, c1, p)"
    by (cases "translateTask env client settings sourceCode input nm t") auto
  obtain t2 c2 ps where run: "translatePromises env client settings sourceCode input names t1 = (t2, c2, ps)"
    by (cases "translatePromises env client settings sourceCode input names t1") auto
  from Cons.prems task run have "p # ps = map Fulfilled rs" by simp
  then obtain r rs' where rs: "rs = r # rs'" "p = Fulfilled r" "ps = map Fulfilled rs'"
    by (cases rs) auto
  from task rs have "(r \<noteq> None) = (servicesData env nm \<noteq> None)"
    using translateTask_registered [of env client settings sourceCode input nm t r] by simp
  moreover from run rs have "map (\<lambda>r. r \<noteq> None) rs' = map (\<lambda>n. servicesData env n \<noteq> None) names"
    using Cons.IH [of t1 rs'] by simp
  ultimately show ?case using rs by simp
qed

lemma count_registered:
  assumes "map (\<lambda>r. r \<noteq> None) rs = map (\<lambda>n. servicesData env n \<noteq> None) (pre @ post)"
  shows "length (filter (\<lambda>i. i \<noteq> None) (take (length pre) rs)) =
         length (filter (\<lambda>n. servicesData env n \<noteq> None) pre)"
proof -
  have "length (filter (\<lambda>i. i \<noteq> None) (take (length pre) rs)) =
        length (filter id (map (\<lambda>r. r \<noteq> None) (take (length pre) rs)))"
    by (simp add: filter_map comp_def)
  also have "map (\<lambda>r. r \<noteq> None) (take (length pre) rs) =
        take (length pre) (map (\<lambda>n. servicesData env n \<noteq> None) (pre @ post))"
    using assms by (simp add: take_map [symmetric])
  also have "\<dots> = map (\<lambda>n. servicesData env n \<noteq> None) pre" by simp
  also have "length (filter id (map (\<lambda>n. servicesData env n \<noteq> None) pre)) =
        length (filter (\<lambda>n. servicesData env n \<noteq> None) pre)"
    by (simp add: filter_map comp_def)
  finally show ?thesis .
qed

lemma collect_insert:
  assumes "collect (map f (a @ b)) = Inr items" and "f x = Inr v"
  shows "collect (map f (a @ x # b)) = Inr (take (length a) items @ v # drop (length a) items)"
proof -
  from assms(1) have m: "map f a @ map f b = map Inr items"
    using collect_Inr_D [of "map f (a @ b)" items] by simp
  then have "take (length a) (map f a @ map f b) = take (length a) (map Inr items)" by simp
  then have ma: "map f a = map Inr (take (length a) items)" by (simp add: take_map)
  from m have "drop (length a) (map f a @ map f b) = drop (length a) (map Inr items)" by simp
  then have mb: "map f b = map Inr (drop (length a) items)" by (simp add: drop_map)
  have "map f (a @ x # b) = map Inr (take (length a) items @ v # drop (length a) items)"
    using ma mb assms(2) by simp
  then show ?thesis by (simp only: collect_map_Inr)
qed

lemma translatePromises_skip:
  assumes "translateTask env client settings sourceCode input nm
             (fst (translatePromises env client settings sourceCode input pre t)) =
           (fst (translatePromises env client settings sourceCode input pre t), [], Fulfilled x)"
  shows "translatePromises env client settings sourceCode input (pre @ nm # post) t =
     (case translatePromises env client settings sourceCode input (pre @ post) t of
        (t', cs, ps) \<Rightarrow> (t', cs, take (length pre) ps @ Fulfilled x # drop (length pre) ps))"
proof -
  obtain t1 c1 p1 where pre: "translatePromises env client settings sourceCode input pre t = (t1, c1, p1)"
    by (cases "translatePromises env client settings sourceCode input pre t") auto
  obtain t2 c2 p2 where post: "translatePromises env client settings sourceCode input post t1 = (t2, c2, p2)"
    by (cases "translatePromises env client settings sourceCode input post t1") auto
  from assms pre have task: "translateTask env client settings sourceCode input nm t1 = (t1, [], Fulfilled x)"
    by simp
  have len: "length p1 = length pre"
    using translatePromises_length [of env client settings sourceCode input pre t] pre by simp
  have a: "translatePromises env client settings sourceCode input (pre @ post) t = (t2, c1 @ c2, p1 @ p2)"
    by (simp add: translatePromises_append pre post)
  have b: "translatePromises env client settings sourceCode input (pre @ nm # post) t =
      (t2, c1 @ c2, p1 @ Fulfilled x # p2)"
    by (simp add: translatePromises_append pre post task)
  show ?thesis unfolding a b by (simp add: len)
qed

lemma dispatch_insert_fulfilled:
  assumes task: "translateTask env client settings sourceCode input nm
             (fst (translatePromises env client settings sourceCode input pre t)) =
           (fst (translatePromises env client settings sourceCode input pre t), [], Fulfilled x)"
  shows "calls (dispatch env client settings (pre @ nm # post) sourceCode t input) =
         calls (dispatch env client settings (pre @ post) sourceCode t input)"
    and "promise_all (snd (snd (translatePromises env client settings sourceCode input
                                  (pre @ nm # post) t))) =
         (case promise_all (snd (snd (translatePromises env client settings sourceCode input
                                        (pre @ post) t))) of
            Fulfilled rs \<Rightarrow> Fulfilled (take (length pre) rs @ x # drop (length pre) rs)
          | Rejected \<Rightarrow> Rejected
          | Pending \<Rightarrow> Pending)"
    and "fst (translatePromises env client settings sourceCode input (pre @ nm # post) t) =
         fst (translatePromises env client settings sourceCode input (pre @ post) t)"
proof -
  obtain t' cs ps where run: "translatePromises env client settings sourceCode input (pre @ post) t = (t', cs, ps)"
    by (cases "translatePromises env client settings sourceCode input (pre @ post) t") auto
  from translatePromises_skip [OF task, of post] run
  have ins: "translatePromises env client settings sourceCode input (pre @ nm # post) t =
      (t', cs, take (length pre) ps @ Fulfilled x # drop (length pre) ps)"
    by simp
  show "calls (dispatch env client settings (pre @ nm # post) sourceCode t input) =
         calls (dispatch env client settings (pre @ post) sourceCode t input)"
    by (simp add: dispatch_def run ins)
  show "fst (translatePromises env client settings sourceCode input (pre @ nm # post) t) =
         fst (translatePromises env client settings sourceCode input (pre @ post) t)"
    by (simp add: run ins)
  have "length ps = length (pre @ post)"
    using translatePromises_length [of env client settings sourceCode input "pre @ post" t] run
    by simp
  then have lp: "length (take (length pre) ps) = length pre" by simp
  have "promise_all (take (length pre) ps @ Fulfilled x # drop (length pre) ps) =
     (case promise_all (take (length pre) ps @ drop (length pre) ps) of
        Fulfilled rs \<Rightarrow> Fulfilled (take (length (take (length pre) ps)) rs @ x
                                     # drop (length (take (length pre) ps)) rs)
      | Rejected \<Rightarrow> Rejected
      | Pending \<Rightarrow> Pending)"
    by (rule promise_all_insert)
  then show "promise_all (snd (snd (translatePromises env client settings sourceCode input
                                  (pre @ nm # post) t))) =
         (case promise_all (snd (snd (translatePromises env client settings sourceCode input
                                        (pre @ post) t))) of
            Fulfilled rs \<Rightarrow> Fulfilled (take (length pre) rs @ x # drop (length pre) rs)
          | Rejected \<Rightarrow> Rejected
          | Pending \<Rightarrow> Pending)"
    unfolding lp by (simp add: run ins)
qed

lemma response_dispatch:
  "response (dispatch env client settings names sourceCode t input) =
     (case promise_all (snd (snd (translatePromises env client settings sourceCode input names t))) of
        Rejected \<Rightarrow> Inl TranslateRejected
      | Pending \<Rightarrow> Inl NeverSettles
      | Fulfilled results \<Rightarrow>
          collect (map (responseItem env (interfaceLanguage settings) sourceCode
                          (fst (translatePromises env client settings sourceCode input names t)))
                     (map the (filter (\<lambda>i. i \<noteq> None) results))))"
  by (cases "translatePromises env client settings sourceCode input names t")
    (simp add: dispatch_def split: promise.splits)

lemma dispatch_unregistered:
  assumes "servicesData env nm = None"
  shows "dispatch env client settings (pre @ nm # post) sourceCode t input =
         dispatch env client settings (pre @ post) sourceCode t input"
proof -
  let ?cur = "fst (translatePromises env client settings sourceCode input pre t)"
  from assms have task: "translateTask env client settings sourceCode input nm ?cur =
      (?cur, [], Fulfilled None)"
    by (simp add: translateTask_def)
  note i = dispatch_insert_fulfilled [OF task, of post]
  have r: "response (dispatch env client settings (pre @ nm # post) sourceCode t input) =
           response (dispatch env client settings (pre @ post) sourceCode t input)"
  proof (cases "promise_all (snd (snd (translatePromises env client settings sourceCode input
                                        (pre @ post) t)))")
    case (Fulfilled rs)
    have "filter (\<lambda>i. i \<noteq> None) (take (length pre) rs @ None # drop (length pre) rs) =
          filter (\<lambda>i. i \<noteq> None) rs"
      by (metis (mono_tags, lifting) append_take_drop_id filter.simps(2) filter_append)
    with Fulfilled show ?thesis by (simp add: response_dispatch i)
  next
    case Rejected
    then show ?thesis by (simp add: response_dispatch i)
  next
    case Pending
    then show ?thesis by (simp add: response_dispatch i)
  qed
  have a: "axiosInstance (dispatch env client settings (pre @ nm # post) sourceCode t input) =
           axiosInstance (dispatch env client settings (pre @ post) sourceCode t input)"
    by (simp add: dispatch_def split: prod.splits)
  from r a i(1) show ?thesis by simp
qed

lemma dispatch_unsupported_source:
  assumes s: "servicesData env nm = Some service"
    and n: "languagesMap service sourceCode = None"
    and d: "response (dispatch env client settings (pre @ post) sourceCode t input) = Inr items"
    and v: "responseItem env (interfaceLanguage settings) sourceCode
              (fst (translatePromises env client settings sourceCode input (pre @ post) t))
              (unsupportedSourceLanguage (interfaceLanguage settings), nm) = Inr notice"
  shows "response (dispatch env client settings (pre @ nm # post) sourceCode t input) =
         Inr (take (length (filter (\<lambda>n. servicesData env n \<noteq> None) pre)) items @ notice
              # drop (length (filter (\<lambda>n. servicesData env n \<noteq> None) pre)) items)"
proof -
  let ?cur = "fst (translatePromises env client settings sourceCode input pre t)"
  let ?x = "Some (unsupportedSourceLanguage (interfaceLanguage settings), nm)"
  let ?f = "responseItem env (interfaceLanguage settings) sourceCode
              (fst (translatePromises env client settings sourceCode input (pre @ post) t))"
  let ?nn = "\<lambda>rs. map the (filter (\<lambda>i. i \<noteq> None) rs)"
  from s n have task: "translateTask env client settings sourceCode input nm ?cur =
      (?cur, [], Fulfilled ?x)"
    by (simp add: translateTask_def)
  note i = dispatch_insert_fulfilled [OF task, of post]
  from d obtain rs where
    pa: "promise_all (snd (snd (translatePromises env client settings sourceCode input
                                  (pre @ post) t))) = Fulfilled rs"
    and c: "collect (map ?f (?nn rs)) = Inr items"
    by (auto simp: response_dispatch split: promise.splits)
  from pa have "snd (snd (translatePromises env client settings sourceCode input (pre @ post) t)) =
      map Fulfilled rs"
    by (rule promise_all_Fulfilled_D)
  then have reg: "map (\<lambda>r. r \<noteq> None) rs = map (\<lambda>n. servicesData env n \<noteq> None) (pre @ post)"
    by (rule translatePromises_registered)
  have k: "length (?nn (take (length pre) rs)) =
           length (filter (\<lambda>n. servicesData env n \<noteq> None) pre)"
    using count_registered [OF reg] by simp
  have split: "?nn rs = ?nn (take (length pre) rs) @ ?nn (drop (length pre) rs)"
    by (metis append_take_drop_id filter_append map_append)
  have ins: "?nn (take (length pre) rs @ ?x # drop (length pre) rs) =
      ?nn (take (length pre) rs) @ (unsupportedSourceLanguage (interfaceLanguage settings), nm)
        # ?nn (drop (length pre) rs)"
    by simp
  have c': "collect (map ?f (?nn (take (length pre) rs) @ ?nn (drop (length pre) rs))) =
      Inr items"
    using c by (simp only: split [symmetric])
  have "collect (map ?f (?nn (take (length pre) rs)
                  @ (unsupportedSourceLanguage (interfaceLanguage settings), nm)
                  # ?nn (drop (length pre) rs))) =
        Inr (take (length (?nn (take (length pre) rs))) items @ notice
             # drop (length (?nn (take (length pre) rs))) items)"
    using c' v by (rule collect_insert)
  then show ?thesis
    unfolding k by (simp only: response_dispatch i pa promise.case ins)
qed

lemma dispatch_rejected:
  assumes s: "servicesData env nm = Some service"
    and m: "languagesMap service sourceCode = Some serviceSource"
    and r: "translate service input serviceSource
              (languagesMap service
                 (fst (translateTask env client settings sourceCode input nm
                         (fst (translatePromises env client settings sourceCode input pre t)))))
              client settings = Rejected"
  shows "response (dispatch env client settings (pre @ nm # post) sourceCode t input) =
         Inl TranslateRejected"
proof -
  let ?cur = "fst (translatePromises env client settings sourceCode input pre t)"
  from s m r have "snd (snd (translateTask env client settings sourceCode input nm ?cur)) = Rejected"
    by (simp add: translateTask_def Let_def)
  then obtain t1 c1 where task: "translateTask env client settings sourceCode input nm ?cur = (t1, c1, Rejected)"
    by (cases "translateTask env client settings sourceCode input nm ?cur") auto
  obtain t0 c0 p0 where pre: "translatePromises env client settings sourceCode input pre t = (t0, c0, p0)"
    by (cases "translatePromises env client settings sourceCode input pre t") auto
  obtain t2 c2 p2 where post: "translatePromises env client settings sourceCode input post t1 = (t2, c2, p2)"
    by (cases "translatePromises env client settings sourceCode input post t1") auto
  from task pre have task': "translateTask env client settings sourceCode input nm t0 = (t1, c1, Rejected)"
    by simp
  have "translatePromises env client settings sourceCode input (pre @ nm # post) t =
      (t2, c0 @ c1 @ c2, p0 @ Rejected # p2)"
    by (simp add: translatePromises_append pre task' post)
  then have "Rejected \<in> set (snd (snd (translatePromises env client settings sourceCode input
                                     (pre @ nm # post) t)))"
    by simp
  then have "promise_all (snd (snd (translatePromises env client settings sourceCode input
                                     (pre @ nm # post) t))) = Rejected"
    by (rule promise_all_Rejected)
  then show ?thesis by (simp add: response_dispatch)
qed

text \<open>
  \<^bold>\<open>C1\<close> (isolation), as amended. Configuring one more service \<open>nm\<close> between the
  services \<open>pre\<close> and \<open>post\<close> leaves the other services alone when \<open>nm\<close> is not
  registered (the dispatch is the same as without it) and when \<open>nm\<close> does not support
  the source language (the calls are the same, and the items are the same with the
  "unsupported source language" item of \<open>nm\<close> added in its place in the list). It does
  not when \<^verbatim>\<open>translate\<close> of \<open>nm\<close> rejects: \<^verbatim>\<open>Promise.all\<close> rejects, nothing in the handler
  catches it, and the query adds no item at all, whatever the other services returned.
\<close>

theorem dispatch_isolation:
  "(servicesData env nm = None \<longrightarrow>
      dispatch env client settings (pre @ nm # post) sourceCode targetCode input =
      dispatch env client settings (pre @ post) sourceCode targetCode input) \<and>
   (\<forall>service items notice.
      servicesData env nm = Some service \<and> languagesMap service sourceCode = None \<and>
      response (dispatch env client settings (pre @ post) sourceCode targetCode input) = Inr items \<and>
      responseItem env (interfaceLanguage settings) sourceCode
        (fst (translatePromises env client settings sourceCode input (pre @ post) targetCode))
        (unsupportedSourceLanguage (interfaceLanguage settings), nm) = Inr notice \<longrightarrow>
        calls (dispatch env client settings (pre @ nm # post) sourceCode targetCode input) =
          calls (dispatch env client settings (pre @ post) sourceCode targetCode input) \<and>
        response (dispatch env client settings (pre @ nm # post) sourceCode targetCode input) =
          Inr (take (length (filter (\<lambda>n. servicesData env n \<noteq> None) pre)) items @ notice
               # drop (length (filter (\<lambda>n. servicesData env n \<noteq> None) pre)) items)) \<and>
   (\<forall>service serviceSource.
      servicesData env nm = Some service \<and> languagesMap service sourceCode = Some serviceSource \<and>
      translate service input serviceSource
        (languagesMap service
           (fst (translateTask env client settings sourceCode input nm
                   (fst (translatePromises env client settings sourceCode input pre targetCode)))))
        client settings = Rejected \<longrightarrow>
        response (dispatch env client settings (pre @ nm # post) sourceCode targetCode input) =
          Inl TranslateRejected)"
proof (intro conjI impI allI)
  assume "servicesData env nm = None"
  then show "dispatch env client settings (pre @ nm # post) sourceCode targetCode input =
      dispatch env client settings (pre @ post) sourceCode targetCode input"
    by (rule dispatch_unregistered)
next
  fix service items notice
  assume h: "servicesData env nm = Some service \<and> languagesMap service sourceCode = None \<and>
      response (dispatch env client settings (pre @ post) sourceCode targetCode input) = Inr items \<and>
      responseItem env (interfaceLanguage settings) sourceCode
        (fst (translatePromises env client settings sourceCode input (pre @ post) targetCode))
        (unsupportedSourceLanguage (interfaceLanguage settings), nm) = Inr notice"
  let ?cur = "fst (translatePromises env client settings sourceCode input pre targetCode)"
  from h have task: "translateTask env client settings sourceCode input nm ?cur =
      (?cur, [], Fulfilled (Some (unsupportedSourceLanguage (interfaceLanguage settings), nm)))"
    by (simp add: translateTask_def)
  show "calls (dispatch env client settings (pre @ nm # post) sourceCode targetCode input) =
          calls (dispatch env client settings (pre @ post) sourceCode targetCode input)"
    using task by (rule dispatch_insert_fulfilled(1))
  from h show "response (dispatch env client settings (pre @ nm # post) sourceCode targetCode input) =
          Inr (take (length (filter (\<lambda>n. servicesData env n \<noteq> None) pre)) items @ notice
               # drop (length (filter (\<lambda>n. servicesData env n \<noteq> None) pre)) items)"
    by (intro dispatch_unsupported_source [of env nm service]) simp_all
next
  fix service serviceSource
  assume "servicesData env nm = Some service \<and> languagesMap service sourceCode = Some serviceSource \<and>
      translate service input serviceSource
        (languagesMap service
           (fst (translateTask env client settings sourceCode input nm
                   (fst (translatePromises env client settings sourceCode input pre targetCode)))))
        client settings = Rejected"
  then show "response (dispatch env client settings (pre @ nm # post) sourceCode targetCode input) =
          Inl TranslateRejected"
    by (intro dispatch_rejected [of env nm service sourceCode serviceSource]) simp_all
qed

theorem dispatch_isolation_witness:
  "servicesData exampleEnv (js ''missing'') = None \<and>
   dispatch exampleEnv () exampleSettings [js ''echo'', js ''missing'', js ''narrow'']
       (js ''en'') (js ''zh'') (js ''hello'') =
     dispatch exampleEnv () exampleSettings [js ''echo'', js ''narrow'']
       (js ''en'') (js ''zh'') (js ''hello'') \<and>
   servicesData exampleEnv (js ''narrow'') = Some narrowService \<and>
   languagesMap narrowService (js ''en'') = None \<and>
   response (dispatch exampleEnv () exampleSettings [js ''narrow'', js ''echo'']
               (js ''en'') (js ''zh'') (js ''hello'')) =
     Inr [\<lparr>title = js ''Unsupported source language'',
           subtitle = js ''English'' @ arrow @ js ''Chinese  [Narrow]'',
           icoPath = js ''assets/service_icon/narrow.png'',
           jsonRPCAction = Some (Custom (js ''copy'') [js ''Unsupported source language''])\<rparr>,
          \<lparr>title = js ''echo hello'',
           subtitle = js ''English'' @ arrow @ js ''Chinese  [Echo]'',
           icoPath = js ''assets/service_icon/echo.png'',
           jsonRPCAction = Some (Custom (js ''copy'') [js ''echo hello''])\<rparr>] \<and>
   servicesData exampleEnv (js ''down'') = Some downService \<and>
   languagesMap downService (js ''en'') = Some (js ''en'') \<and>
   response (dispatch exampleEnv () exampleSettings [js ''echo'', js ''down'', js ''narrow'']
               (js ''en'') (js ''zh'') (js ''hello'')) = Inl TranslateRejected"
proof -
  let ?echoItem = "\<lparr>title = js ''echo hello'',
           subtitle = js ''English'' @ arrow @ js ''Chinese  [Echo]'',
           icoPath = js ''assets/service_icon/echo.png'',
           jsonRPCAction = Some (Custom (js ''copy'') [js ''echo hello''])\<rparr>"
  let ?notice = "\<lparr>title = js ''Unsupported source language'',
           subtitle = js ''English'' @ arrow @ js ''Chinese  [Narrow]'',
           icoPath = js ''assets/service_icon/narrow.png'',
           jsonRPCAction = Some (Custom (js ''copy'') [js ''Unsupported source language''])\<rparr>"
  have m: "servicesData exampleEnv (js ''missing'') = None"
    by (simp add: example_eval js_def)
  have n: "servicesData exampleEnv (js ''narrow'') = Some narrowService"
    "languagesMap narrowService (js ''en'') = None"
    by (simp_all add: example_eval js_def)
  have d: "servicesData exampleEnv (js ''down'') = Some downService"
    "languagesMap downService (js ''en'') = Some (js ''en'')"
    by (simp_all add: example_eval js_def)
  have rej: "translate downService (js ''hello'') (js ''en'')
        (languagesMap downService
           (fst (translateTask exampleEnv () exampleSettings (js ''en'') (js ''hello'') (js ''down'')
                   (fst (translatePromises exampleEnv () exampleSettings (js ''en'') (js ''hello'')
                           [js ''echo''] (js ''zh''))))))
        () exampleSettings = Rejected"
    by (simp add: downService_def)
  have e: "response (dispatch exampleEnv () exampleSettings ([] @ [js ''echo''])
               (js ''en'') (js ''zh'') (js ''hello'')) = Inr [?echoItem]"
    by (simp add: handler_eval example_eval message_eval js_def)
  have v: "responseItem exampleEnv (interfaceLanguage exampleSettings) (js ''en'')
        (fst (translatePromises exampleEnv () exampleSettings (js ''en'') (js ''hello'')
                ([] @ [js ''echo'']) (js ''zh'')))
        (unsupportedSourceLanguage (interfaceLanguage exampleSettings), js ''narrow'') = Inr ?notice"
    by (simp add: handler_eval example_eval message_eval js_def)
  note t1 = dispatch_isolation [where env = exampleEnv and nm = "js ''missing''"
      and client = "()" and settings = exampleSettings and pre = "[js ''echo'']"
      and post = "[js ''narrow'']" and sourceCode = "js ''en''" and targetCode = "js ''zh''"
      and input = "js ''hello''"]
  note t2 = dispatch_isolation [where env = exampleEnv and nm = "js ''narrow''"
      and client = "()" and settings = exampleSettings and pre = "[]"
      and post = "[js ''echo'']" and sourceCode = "js ''en''" and targetCode = "js ''zh''"
      and input = "js ''hello''"]
  note t3 = dispatch_isolation [where env = exampleEnv and nm = "js ''down''"
      and client = "()" and settings = exampleSettings and pre = "[js ''echo'']"
      and post = "[js ''narrow'']" and sourceCode = "js ''en''" and targetCode = "js ''zh''"
      and input = "js ''hello''"]
  from t1 m have r1: "dispatch exampleEnv () exampleSettings ([js ''echo''] @ js ''missing'' # [js ''narrow''])
       (js ''en'') (js ''zh'') (js ''hello'') =
     dispatch exampleEnv () exampleSettings ([js ''echo''] @ [js ''narrow''])
       (js ''en'') (js ''zh'') (js ''hello'')"
    by blast
  from t2 n e v have r2: "response (dispatch exampleEnv () exampleSettings ([] @ js ''narrow'' # [js ''echo''])
               (js ''en'') (js ''zh'') (js ''hello'')) =
     Inr (take (length (filter (\<lambda>n. servicesData exampleEnv n \<noteq> None) [])) [?echoItem] @ ?notice
          # drop (length (filter (\<lambda>n. servicesData exampleEnv n \<noteq> None) [])) [?echoItem])"
    by blast
  from t3 d rej have r3: "response (dispatch exampleEnv () exampleSettings
               ([js ''echo''] @ js ''down'' # [js ''narrow''])
               (js ''en'') (js ''zh'') (js ''hello'')) = Inl TranslateRejected"
    by blast
  from r1 have r1': "dispatch exampleEnv () exampleSettings [js ''echo'', js ''missing'', js ''narrow'']
       (js ''en'') (js ''zh'') (js ''hello'') =
     dispatch exampleEnv () exampleSettings [js ''echo'', js ''narrow'']
       (js ''en'') (js ''zh'') (js ''hello'')"
    by simp
  from r2 have r2': "response (dispatch exampleEnv () exampleSettings [js ''narrow'', js ''echo'']
               (js ''en'') (js ''zh'') (js ''hello'')) = Inr [?notice, ?echoItem]"
    by simp
  from r3 have r3': "response (dispatch exampleEnv () exampleSettings [js ''echo'', js ''down'', js ''narrow'']
               (js ''en'') (js ''zh'') (js ''hello'')) = Inl TranslateRejected"
    by simp
  show ?thesis by (intro conjI) (rule m r1' n r2' d r3')+
qed

text \<open>
  \<^bold>\<open>C1\<close> as worded fails with the services \<^verbatim>\<open>down\<close> and \<^verbatim>\<open>echo\<close> configured: on its
  own \<^verbatim>\<open>echo\<close> contributes the item "echo hello"; with \<^verbatim>\<open>down\<close>, whose \<^verbatim>\<open>translate\<close>
  rejects, before it, both services are called and the query ends rejected, without
  the item of \<^verbatim>\<open>echo\<close>.
\<close>

theorem dispatch_isolation_counterexample:
  "translate echoService (js ''hello'') (js ''en'') (Some (js ''zh-CN'')) ()
     (exampleSettings\<lparr>services := Some [js ''down'', js ''echo'']\<rparr>) =
     Fulfilled (js ''echo hello'') \<and>
   response (query exampleEnv None (js ''en>zh hello'')
               (exampleSettings\<lparr>services := Some [js ''echo'']\<rparr>)) =
     Inr [\<lparr>title = js ''echo hello'',
           subtitle = js ''English'' @ arrow @ js ''Chinese  [Echo]'',
           icoPath = js ''assets/service_icon/echo.png'',
           jsonRPCAction = Some (Custom (js ''copy'') [js ''echo hello''])\<rparr>] \<and>
   map calledService
     (calls (query exampleEnv None (js ''en>zh hello'')
               (exampleSettings\<lparr>services := Some [js ''down'', js ''echo'']\<rparr>))) =
     [js ''down'', js ''echo''] \<and>
   response (query exampleEnv None (js ''en>zh hello'')
               (exampleSettings\<lparr>services := Some [js ''down'', js ''echo'']\<rparr>)) =
     Inl TranslateRejected"
  by (simp add: handler_eval parse_eval str_eval example_eval message_eval)

end
